theory Spec2Isabelle
  imports Complex_Main "HOL-Library.Sublist" "HOL-Library.AList"
begin


section \<open>Text\<close>

text \<open>
  A Python \<open>str\<close> is a \<^typ>\<open>string\<close>, one \<^typ>\<open>char\<close> per code point; the character
  tables below (\<open>\d\<close>, \<open>str.lower\<close>, \<open>str.strip\<close>) are those of Python for the code points
  U+0000 to U+00FF. The three fixed Turkish answer texts of the program contain letters
  beyond U+00FF; they are written as the UTF-8 bytes of the source literal, and the
  program only ever returns them, it never inspects them.
\<close>

definition is_digit :: "char \<Rightarrow> bool" where
  \<comment> \<open>the class \<open>\d\<close> of \<open>re\<close>\<close>
  "is_digit c = (c \<in> set ''0123456789'')"

definition is_space :: "char \<Rightarrow> bool" where
  \<comment> \<open>\<open>str.isspace\<close>: TAB, LF, VT, FF, CR, FS, GS, RS, US, SPACE, NEL, NBSP\<close>
  "is_space c =
     (c \<in> set [CHR 0x09, CHR 0x0A, CHR 0x0B, CHR 0x0C, CHR 0x0D, CHR 0x1C, CHR 0x1D,
                CHR 0x1E, CHR 0x1F, CHR 0x20, CHR 0x85, CHR 0xA0])"

definition upper_chars :: string where
  "upper_chars = ''ABCDEFGHIJKLMNOPQRSTUVWXYZ'' @
     [CHR 0xC0, CHR 0xC1, CHR 0xC2, CHR 0xC3, CHR 0xC4, CHR 0xC5, CHR 0xC6, CHR 0xC7,
      CHR 0xC8, CHR 0xC9, CHR 0xCA, CHR 0xCB, CHR 0xCC, CHR 0xCD, CHR 0xCE, CHR 0xCF,
      CHR 0xD0, CHR 0xD1, CHR 0xD2, CHR 0xD3, CHR 0xD4, CHR 0xD5, CHR 0xD6,
      CHR 0xD8, CHR 0xD9, CHR 0xDA, CHR 0xDB, CHR 0xDC, CHR 0xDD, CHR 0xDE]"

definition lower_chars :: string where
  "lower_chars = ''abcdefghijklmnopqrstuvwxyz'' @
     [CHR 0xE0, CHR 0xE1, CHR 0xE2, CHR 0xE3, CHR 0xE4, CHR 0xE5, CHR 0xE6, CHR 0xE7,
      CHR 0xE8, CHR 0xE9, CHR 0xEA, CHR 0xEB, CHR 0xEC, CHR 0xED, CHR 0xEE, CHR 0xEF,
      CHR 0xF0, CHR 0xF1, CHR 0xF2, CHR 0xF3, CHR 0xF4, CHR 0xF5, CHR 0xF6,
      CHR 0xF8, CHR 0xF9, CHR 0xFA, CHR 0xFB, CHR 0xFC, CHR 0xFD, CHR 0xFE]"

definition lower_char :: "char \<Rightarrow> char" where
  "lower_char c = (case map_of (zip upper_chars lower_chars) c of Some l \<Rightarrow> l | None \<Rightarrow> c)"

definition lower :: "string \<Rightarrow> string" where
  \<comment> \<open>\<open>str.lower()\<close>\<close>
  "lower s = map lower_char s"

definition strip :: "string \<Rightarrow> string" where
  \<comment> \<open>\<open>str.strip()\<close>: leading and trailing whitespace removed\<close>
  "strip s = rev (dropWhile is_space (rev (dropWhile is_space s)))"


section \<open>Sequence similarity\<close>

text \<open>
  \<open>difflib.SequenceMatcher(None, a, b).ratio()\<close> of Python's standard library, which the
  name matching calls with no junk predicate and the default \<open>autojunk\<close>.

  When the second sequence has 200 elements or more, the library calls \<open>popular\<close> every
  element that occurs in it more than \<open>len(b) // 100 + 1\<close> times, and does not start or
  continue a block on a popular element. \<open>find_longest_match\<close> first finds the longest
  run of equal, non-popular elements, of all longest runs the one starting earliest in
  \<open>a\<close> and among those the one starting earliest in \<open>b\<close>; it then extends that block to
  the left and to the right over equal elements of any kind. The search is repeated to
  the left and to the right of the block, with the popular elements of the whole second
  sequence. The ratio is twice the number of matched elements over the sum of the two
  lengths, and \<open>1.0\<close> for two empty sequences.

  Ratios are exact rationals here. The program compares the floating-point quotients; for
  sequences of any practical length (below some ten million elements) two distinct
  quotients, and a quotient and the constant \<open>0.85\<close>, round to floats in the same order.
\<close>

definition popular :: "'a list \<Rightarrow> 'a list" where
  "popular b =
     (if length b \<ge> 200
      then filter (\<lambda>x. count_list b x > length b div 100 + 1) (remdups b)
      else [])"

fun common_prefix_len :: "'a list \<Rightarrow> 'a list \<Rightarrow> nat" where
  "common_prefix_len (x # xs) (y # ys) = (if x = y then Suc (common_prefix_len xs ys) else 0)"
| "common_prefix_len _ _ = 0"

fun run_len :: "'a list \<Rightarrow> 'a list \<Rightarrow> 'a list \<Rightarrow> nat" where
  "run_len pop (x # xs) (y # ys) =
     (if x = y \<and> y \<notin> set pop then Suc (run_len pop xs ys) else 0)"
| "run_len pop _ _ = 0"

definition better_block :: "'a list \<Rightarrow> 'a list \<Rightarrow> 'a list \<Rightarrow> nat \<times> nat \<times> nat \<Rightarrow> nat \<times> nat \<Rightarrow> nat \<times> nat \<times> nat" where
  \<comment> \<open>\<open>if k > bestsize: besti, bestj, bestsize = i, j, k\<close>\<close>
  "better_block pop a b best ij =
     (case best of (besti, bestj, bestsize) \<Rightarrow>
      case ij of (i, j) \<Rightarrow>
        let k = run_len pop (drop i a) (drop j b)
        in if k > bestsize then (i, j, k) else (besti, bestj, bestsize))"

definition longest_run :: "'a list \<Rightarrow> 'a list \<Rightarrow> 'a list \<Rightarrow> nat \<times> nat \<times> nat" where
  "longest_run pop a b =
     foldl (better_block pop a b) (0, 0, 0) (List.product [0..<length a] [0..<length b])"

definition find_longest_match :: "'a list \<Rightarrow> 'a list \<Rightarrow> 'a list \<Rightarrow> nat \<times> nat \<times> nat" where
  \<comment> \<open>the longest run, extended to the left by \<open>l\<close> and to the right by \<open>r\<close> elements\<close>
  "find_longest_match pop a b =
     (case longest_run pop a b of (i, j, k) \<Rightarrow>
        let l = common_prefix_len (rev (take i a)) (rev (take j b));
            r = common_prefix_len (drop (i + k) a) (drop (j + k) b)
        in (i - l, j - l, l + k + r))"

lemma common_prefix_len_le:
  "common_prefix_len xs ys \<le> length xs" "common_prefix_len xs ys \<le> length ys"
  by (induction xs ys rule: common_prefix_len.induct) auto

lemma run_len_le:
  "run_len pop xs ys \<le> length xs" "run_len pop xs ys \<le> length ys"
  by (induction pop xs ys rule: run_len.induct) auto

lemma better_block_inv:
  assumes "better_block pop a b best ij = (i', j', k')"
    and "ij \<in> set (List.product [0..<length a] [0..<length b])"
    and "fst best + snd (snd best) \<le> length a \<and> fst (snd best) + snd (snd best) \<le> length b"
  shows "i' + k' \<le> length a \<and> j' + k' \<le> length b"
proof -
  obtain i j where ij: "ij = (i, j)" by (cases ij)
  have lt: "i < length a" "j < length b"
    using assms(2) ij by simp_all
  have "i + run_len pop (drop i a) (drop j b) \<le> length a"
    using run_len_le(1)[of pop "drop i a" "drop j b"] lt by simp
  moreover have "j + run_len pop (drop i a) (drop j b) \<le> length b"
    using run_len_le(2)[of pop "drop i a" "drop j b"] lt by simp
  ultimately show ?thesis
    using assms(1,3) ij by (auto simp: better_block_def Let_def split: prod.splits if_splits)
qed

lemma foldl_better_block_inv:
  assumes "set ps \<subseteq> set (List.product [0..<length a] [0..<length b])"
    and "fst best + snd (snd best) \<le> length a \<and> fst (snd best) + snd (snd best) \<le> length b"
    and "foldl (better_block pop a b) best ps = (i', j', k')"
  shows "i' + k' \<le> length a \<and> j' + k' \<le> length b"
  using assms
proof (induction ps arbitrary: best)
  case Nil
  then show ?case by auto
next
  case (Cons p ps)
  obtain i1 j1 k1 where b1: "better_block pop a b best p = (i1, j1, k1)"
    by (cases "better_block pop a b best p") auto
  have "p \<in> set (List.product [0..<length a] [0..<length b])"
    using Cons.prems(1) by auto
  from better_block_inv[OF b1 this Cons.prems(2)]
  have "fst (i1, j1, k1) + snd (snd (i1, j1, k1)) \<le> length a \<and>
        fst (snd (i1, j1, k1)) + snd (snd (i1, j1, k1)) \<le> length b"
    by simp
  moreover have "set ps \<subseteq> set (List.product [0..<length a] [0..<length b])"
    using Cons.prems(1) by auto
  moreover have "foldl (better_block pop a b) (i1, j1, k1) ps = (i', j', k')"
    using Cons.prems(3) b1 by simp
  ultimately show ?case
    using Cons.IH[of "(i1, j1, k1)"] by blast
qed

lemma longest_run_bounds:
  "longest_run pop a b = (i, j, k) \<Longrightarrow> i + k \<le> length a \<and> j + k \<le> length b"
  using foldl_better_block_inv[of "List.product [0..<length a] [0..<length b]" a b
      "(0, 0, 0)" pop i j k]
  by (simp add: longest_run_def)

lemma find_longest_match_bounds:
  assumes "find_longest_match pop a b = (i, j, k)"
  shows "i + k \<le> length a \<and> j + k \<le> length b"
proof -
  obtain i0 j0 k0 where run: "longest_run pop a b = (i0, j0, k0)"
    by (cases "longest_run pop a b") auto
  define l where "l = common_prefix_len (rev (take i0 a)) (rev (take j0 b))"
  define r where "r = common_prefix_len (drop (i0 + k0) a) (drop (j0 + k0) b)"
  have b0: "i0 + k0 \<le> length a" "j0 + k0 \<le> length b"
    using longest_run_bounds[OF run] by simp_all
  have l: "l \<le> i0" "l \<le> j0"
    using common_prefix_len_le(1)[of "rev (take i0 a)" "rev (take j0 b)"]
      common_prefix_len_le(2)[of "rev (take i0 a)" "rev (take j0 b)"]
    by (simp_all add: l_def)
  have r: "r \<le> length a - (i0 + k0)" "r \<le> length b - (j0 + k0)"
    using common_prefix_len_le(1)[of "drop (i0 + k0) a" "drop (j0 + k0) b"]
      common_prefix_len_le(2)[of "drop (i0 + k0) a" "drop (j0 + k0) b"]
    by (simp_all add: r_def)
  have "i = i0 - l" "j = j0 - l" "k = l + k0 + r"
    using assms run by (simp_all add: find_longest_match_def Let_def l_def r_def)
  then show ?thesis
    using b0 l r by simp arith
qed

function matching_size :: "'a list \<Rightarrow> 'a list \<Rightarrow> 'a list \<Rightarrow> nat" where
  "matching_size pop a b =
     (case find_longest_match pop a b of (i, j, k) \<Rightarrow>
        if k = 0 then 0
        else matching_size pop (take i a) (take j b) + k
             + matching_size pop (drop (i + k) a) (drop (j + k) b))"
  by pat_completeness auto
termination
proof (relation "measure (\<lambda>(pop, a, b). length a + length b)")
  show "wf (measure (\<lambda>(pop, a, b). length a + length b))" by simp
next
  fix pop a b :: "'a list" and i y j k
  assume "(i, y) = find_longest_match pop a b" "(j, k) = y" "k \<noteq> 0"
  then have "find_longest_match pop a b = (i, j, k)" by simp
  from find_longest_match_bounds[OF this] \<open>k \<noteq> 0\<close>
  show "((pop, take i a, take j b), pop, a, b) \<in> measure (\<lambda>(pop, a, b). length a + length b)"
    by simp
next
  fix pop a b :: "'a list" and i y j k
  assume "(i, y) = find_longest_match pop a b" "(j, k) = y" "k \<noteq> 0"
  then have "find_longest_match pop a b = (i, j, k)" by simp
  from find_longest_match_bounds[OF this] \<open>k \<noteq> 0\<close>
  show "((pop, drop (i + k) a, drop (j + k) b), pop, a, b)
          \<in> measure (\<lambda>(pop, a, b). length a + length b)"
    by simp arith
qed

declare matching_size.simps [simp del]

definition ratio :: "'a list \<Rightarrow> 'a list \<Rightarrow> rat" where
  "ratio a b =
     (let n = length a + length b
      in if n = 0 then 1 else 2 * of_nat (matching_size (popular b) a b) / of_nat n)"


section \<open>Person finder\<close>

text \<open>
  A row of the People sheet. \<open>get_people_data\<close> builds every record with the same eleven
  keys and string cells, so the dictionary of the source is a record here, and
  \<open>person.get('phone', '')\<close> is the field.
\<close>

record person =
  person_id :: string
  full_name :: string
  preferred_name :: string
  school :: string
  department :: string
  email :: string
  phone :: string
  "locale" :: string
  profile_doc_id :: string
  profile_text :: string
  last_updated :: string

definition normalize_phone :: "string \<Rightarrow> string" where
  "normalize_phone ph =
     (if ph = [] then []
      else
        let normalized = filter (\<lambda>c. is_digit c \<or> c = CHR ''+'') ph
        in if prefix ''+'' normalized then normalized
           else if prefix ''90'' normalized then ''+'' @ normalized
           else if prefix ''0'' normalized then ''+90'' @ drop 1 normalized
           else ''+'' @ normalized)"

definition fuzzy_match :: "string \<Rightarrow> string \<Rightarrow> bool" where
  \<comment> \<open>with the default threshold 0.85\<close>
  "fuzzy_match text1 text2 =
     (if text1 = [] \<or> text2 = [] then False
      else ratio (strip (lower text1)) (strip (lower text2)) \<ge> 85 / 100)"

definition find_by_phone :: "person list \<Rightarrow> string \<Rightarrow> person option" where
  "find_by_phone people_data ph =
     (if ph = [] then None
      else find (\<lambda>p. normalize_phone (person.phone p) = normalize_phone ph) people_data)"

definition check_name :: "string \<Rightarrow> person \<Rightarrow> string \<Rightarrow> person option \<times> rat \<Rightarrow> person option \<times> rat" where
  \<comment> \<open>one of the two \<open>if\<close> blocks of the loop body; the state is \<open>(best_match, best_ratio)\<close>\<close>
  "check_name name p stored best =
     (if stored \<noteq> [] \<and> fuzzy_match name stored then
        let r = ratio (lower name) (lower stored)
        in if r > snd best then (Some p, r) else best
      else best)"

fun find_by_name_loop :: "string \<Rightarrow> person list \<Rightarrow> person option \<times> rat \<Rightarrow> person option \<times> rat" where
  "find_by_name_loop name [] best = best"
| "find_by_name_loop name (p # ps) best =
     find_by_name_loop name ps
       (check_name name p (preferred_name p) (check_name name p (full_name p) best))"

definition find_by_name :: "person list \<Rightarrow> string \<Rightarrow> person option" where
  "find_by_name people_data name =
     (if name = [] then None else fst (find_by_name_loop name people_data (None, 0)))"

definition find_person :: "person list \<Rightarrow> string option \<Rightarrow> string option \<Rightarrow> person option" where
  "find_person people_data user_phone user_name =
     (case (case user_phone of
              Some ph \<Rightarrow> if ph \<noteq> [] then find_by_phone people_data ph else None
            | None \<Rightarrow> None) of
        Some p \<Rightarrow> Some p
      | None \<Rightarrow>
          (case user_name of
             Some nm \<Rightarrow> if nm \<noteq> [] then find_by_name people_data nm else None
           | None \<Rightarrow> None))"

text \<open>
  The two self-introduction patterns of \<open>extract_name_from_message\<close>, in the order of the
  source. \<open>re.search(pattern, message, re.IGNORECASE)\<close> is the regular-expression library:
  the function below takes it as \<open>search\<close>, which gives the first capture group of the
  first match, or nothing.
\<close>

datatype name_pattern = Name_After_Intro | Name_Before_Intro

fun first_capture :: "(name_pattern \<Rightarrow> string \<Rightarrow> string option) \<Rightarrow> name_pattern list \<Rightarrow> string \<Rightarrow> string option" where
  "first_capture search [] message = None"
| "first_capture search (pat # pats) message =
     (case search pat message of
        Some g \<Rightarrow>
          (let name = strip g
           in if length name > 2 then Some name else first_capture search pats message)
      | None \<Rightarrow> first_capture search pats message)"

definition extract_name_from_message :: "(name_pattern \<Rightarrow> string \<Rightarrow> string option) \<Rightarrow> string \<Rightarrow> string option" where
  "extract_name_from_message search message =
     (if message = [] then None
      else first_capture search [Name_After_Intro, Name_Before_Intro] message)"

type_synonym facts = "(string \<times> string) list"

definition build_facts :: "person \<Rightarrow> facts" where
  "build_facts p =
     [(''person_id'', person.person_id p),
      (''full_name'', full_name p),
      (''preferred_name'', preferred_name p),
      (''school'', school p),
      (''department'', department p),
      (''email'', email p),
      (''phone'', person.phone p),
      (''locale'', person.locale p),
      (''profile_text'', profile_text p)]"


section \<open>Sheets client and its cache\<close>

record settings =
  default_locale :: string
  cache_ttl_ms :: int

text \<open>
  The state the requests share. \<open>cache\<close> is the \<open>TTLCache\<close> of the client, which only ever
  holds the key \<open>"people_data"\<close>: the stored list and the time at which it expires (the
  library gives a key stored at time \<open>t\<close> the expiry \<open>t + ttl\<close>, and reports it present
  while the timer is below the expiry). \<open>fetches\<close> and \<open>generations\<close> count the calls made
  to the spreadsheet service and to the generation service; the program does not hold
  them, they are there to state how often it calls out. Times are rationals, in seconds.
\<close>

record service_state =
  cache :: "(person list \<times> rat) option"
  fetches :: nat
  generations :: nat

datatype fetch_outcome = Fetch_Raises | Fetch_Values "string list list"

datatype error = Sheets_Error

definition headers :: "string list" where
  "headers =
     [''person_id'', ''full_name'', ''preferred_name'', ''school'', ''department'',
      ''email'', ''phone'', ''locale'', ''profile_doc_id'', ''profile_text'', ''last_updated'']"

definition parse_row :: "string list \<Rightarrow> person option" where
  \<comment> \<open>a row shorter than the headers is skipped\<close>
  "parse_row row =
     (if length row \<ge> length headers then
        Some \<lparr> person_id = row ! 0, full_name = row ! 1, preferred_name = row ! 2,
               school = row ! 3, department = row ! 4, email = row ! 5, phone = row ! 6,
               locale = row ! 7, profile_doc_id = row ! 8, profile_text = row ! 9,
               last_updated = row ! 10 \<rparr>
      else None)"

definition cache_lookup :: "rat \<Rightarrow> service_state \<Rightarrow> person list option" where
  \<comment> \<open>\<open>cache_key in self.cache\<close>, then \<open>self.cache[cache_key]\<close>\<close>
  "cache_lookup now st =
     (case cache st of
        Some (data, expires) \<Rightarrow> if now < expires then Some data else None
      | None \<Rightarrow> None)"

definition get_people_data :: "settings \<Rightarrow> rat \<Rightarrow> fetch_outcome \<Rightarrow> service_state \<Rightarrow> (error + person list) \<times> service_state" where
  "get_people_data S now outcome st =
     (case cache_lookup now st of
        Some data \<Rightarrow> (Inr data, st)
      | None \<Rightarrow>
          (let st1 = st\<lparr>fetches := fetches st + 1\<rparr>
           in case outcome of
                Fetch_Raises \<Rightarrow> (Inl Sheets_Error, st1)
              | Fetch_Values vals \<Rightarrow>
                  if vals = [] then (Inr [], st1)
                  else
                    let people_data = List.map_filter parse_row vals
                    in (Inr people_data,
                        st1\<lparr>cache := Some (people_data, now + of_int (cache_ttl_ms S) / 1000)\<rparr>)))"


section \<open>Requests and responses\<close>

record user_info =
  name :: "string option"
  phone :: "string option"
  "locale" :: "string option"

record chat_request =
  message :: string
  user :: "user_info option"

text \<open>
  What \<open>json.loads\<close> returns. Numbers are rationals (a Python \<open>int\<close> or a finite \<open>float\<close>); an
  object is the list of its items, read by \<^const>\<open>map_of\<close> and written by
  \<^const>\<open>AList.update\<close>, which replaces the value of a key in place and appends a new key,
  as assignment to a Python dictionary does.
\<close>

datatype json =
  JNull
  | JBool bool
  | JNum rat
  | JStr string
  | JArr "json list"
  | JObj "(string \<times> json) list"

fun truthy :: "json \<Rightarrow> bool" where
  "truthy JNull = False"
| "truthy (JBool b) = b"
| "truthy (JNum r) = (r \<noteq> 0)"
| "truthy (JStr s) = (s \<noteq> [])"
| "truthy (JArr xs) = (xs \<noteq> [])"
| "truthy (JObj kvs) = (kvs \<noteq> [])"

record reference =
  source :: string
  person_id :: "string option"

record error_response =
  answer_text :: string
  intent :: string
  confidence :: rat
  references :: "reference list"

record chat_response =
  answer_text :: string
  intent :: string
  confidence :: rat
  references :: "reference list"
  meta :: "(string \<times> json) list option"

datatype http_result = Http_200 chat_response | Http_500 error_response

definition technical_problem_text :: string where
  "technical_problem_text =
     [CHR 0xC5, CHR 0x9E] @ ''u an teknik bir sorun olu'' @ [CHR 0xC5, CHR 0x9F] @ ''tu. L''
     @ [CHR 0xC3, CHR 0xBC] @ ''tfen daha sonra tekrar dener misiniz?''"

definition not_found_with_phone_text :: string where
  "not_found_with_phone_text =
     ''Numaran'' @ [CHR 0xC4, CHR 0xB1] @ ''zla e'' @ [CHR 0xC5, CHR 0x9F] @ ''le''
     @ [CHR 0xC5, CHR 0x9F] @ ''en kay'' @ [CHR 0xC4, CHR 0xB1] @ ''t bulamad''
     @ [CHR 0xC4, CHR 0xB1] @ ''m; ad-soyad ve okul/b'' @ [CHR 0xC3, CHR 0xB6] @ ''l''
     @ [CHR 0xC3, CHR 0xBC] @ ''m bilgisini payla'' @ [CHR 0xC5, CHR 0x9F, CHR 0xC4, CHR 0xB1]
     @ ''r m'' @ [CHR 0xC4, CHR 0xB1] @ ''s'' @ [CHR 0xC4, CHR 0xB1] @ ''n''
     @ [CHR 0xC4, CHR 0xB1] @ ''z?''"

definition not_found_without_phone_text :: string where
  "not_found_without_phone_text =
     ''Size yard'' @ [CHR 0xC4, CHR 0xB1] @ ''mc'' @ [CHR 0xC4, CHR 0xB1] @ '' olabilmem i''
     @ [CHR 0xC3, CHR 0xA7] @ ''in ad-soyad ve okul/b'' @ [CHR 0xC3, CHR 0xB6] @ ''l''
     @ [CHR 0xC3, CHR 0xBC] @ ''m bilgisini payla'' @ [CHR 0xC5, CHR 0x9F, CHR 0xC4, CHR 0xB1]
     @ ''r m'' @ [CHR 0xC4, CHR 0xB1] @ ''s'' @ [CHR 0xC4, CHR 0xB1] @ ''n''
     @ [CHR 0xC4, CHR 0xB1] @ ''z?''"

definition str_truthy :: "string option \<Rightarrow> bool" where
  \<comment> \<open>the truth value of an \<open>Optional[str]\<close>\<close>
  "str_truthy v = (case v of Some s \<Rightarrow> s \<noteq> [] | None \<Rightarrow> False)"


section \<open>Generation and its fallback\<close>

text \<open>
  What one call of the generation service comes to, as \<open>generate_response\<close> sees it:
  an exception anywhere from building the model to reading the reply, no text, text that
  \<open>json.loads\<close> rejects, or the value \<open>json.loads\<close> returns.
\<close>

datatype llm_outcome = Llm_Raises | Llm_Empty | Llm_Malformed | Llm_Json json

definition fallback :: "string \<Rightarrow> string option \<Rightarrow> chat_response" where
  "fallback loc pid =
     \<lparr> answer_text = technical_problem_text,
       intent = ''genel'',
       confidence = 0,
       references =
         (if str_truthy pid
          then [\<lparr> source = ''People'', person_id = pid \<rparr>]
          else []),
       meta = Some [(''locale_used'', JStr loc), (''fallback'', JBool True)] \<rparr>"

text \<open>
  \<open>ChatResponse.model_validate\<close> is the validation library's, in its default (lax) mode:
  a \<open>str\<close> field takes a string only; the \<open>float\<close> field takes a number, and what else
  the library would coerce to a float (a boolean, a numeric string) is left to the
  parameter \<open>lax_float\<close>; the result must lie in \<open>[0, 1]\<close>; \<open>references\<close> must be a list of
  objects with a string \<open>source\<close> and an optional string \<open>person_id\<close>; \<open>meta\<close> an object or
  null. \<open>None\<close> is the validation error.
\<close>

definition validate_str :: "json option \<Rightarrow> string option" where
  "validate_str v = (case v of Some (JStr s) \<Rightarrow> Some s | _ \<Rightarrow> None)"

definition validate_confidence :: "(json \<Rightarrow> rat option) \<Rightarrow> json option \<Rightarrow> rat option" where
  "validate_confidence lax_float v =
     (case (case v of
              Some (JNum r) \<Rightarrow> Some r
            | Some w \<Rightarrow> lax_float w
            | None \<Rightarrow> None) of
        Some r \<Rightarrow> if 0 \<le> r \<and> r \<le> 1 then Some r else None
      | None \<Rightarrow> None)"

definition validate_reference :: "json \<Rightarrow> reference option" where
  "validate_reference v =
     (case v of
        JObj kvs \<Rightarrow>
          (case map_of kvs ''source'' of
             Some (JStr s) \<Rightarrow>
               (case map_of kvs ''person_id'' of
                  None \<Rightarrow> Some \<lparr> source = s, person_id = None \<rparr>
                | Some JNull \<Rightarrow> Some \<lparr> source = s, person_id = None \<rparr>
                | Some (JStr p) \<Rightarrow> Some \<lparr> source = s, person_id = Some p \<rparr>
                | Some _ \<Rightarrow> None)
           | _ \<Rightarrow> None)
      | _ \<Rightarrow> None)"

fun validate_reference_list :: "json list \<Rightarrow> reference list option" where
  "validate_reference_list [] = Some []"
| "validate_reference_list (v # vs) =
     (case validate_reference v of
        None \<Rightarrow> None
      | Some r \<Rightarrow>
          (case validate_reference_list vs of
             None \<Rightarrow> None
           | Some rs \<Rightarrow> Some (r # rs)))"

definition validate_references :: "json option \<Rightarrow> reference list option" where
  "validate_references v =
     (case v of
        None \<Rightarrow> Some []
      | Some (JArr items) \<Rightarrow> validate_reference_list items
      | Some _ \<Rightarrow> None)"

definition validate_meta :: "json option \<Rightarrow> (string \<times> json) list option option" where
  "validate_meta v =
     (case v of
        None \<Rightarrow> Some None
      | Some JNull \<Rightarrow> Some None
      | Some (JObj kvs) \<Rightarrow> Some (Some kvs)
      | Some _ \<Rightarrow> None)"

definition model_validate :: "(json \<Rightarrow> rat option) \<Rightarrow> (string \<times> json) list \<Rightarrow> chat_response option" where
  "model_validate lax_float data =
     (case validate_str (map_of data ''answer_text'') of
        None \<Rightarrow> None
      | Some a \<Rightarrow>
     (case validate_str (map_of data ''intent'') of
        None \<Rightarrow> None
      | Some i \<Rightarrow>
     (case validate_confidence lax_float (map_of data ''confidence'') of
        None \<Rightarrow> None
      | Some c \<Rightarrow>
     (case validate_references (map_of data ''references'') of
        None \<Rightarrow> None
      | Some rs \<Rightarrow>
     (case validate_meta (map_of data ''meta'') of
        None \<Rightarrow> None
      | Some m \<Rightarrow>
          Some \<lparr> answer_text = a, intent = i, confidence = c, references = rs, meta = m \<rparr>)))))"

definition opt_truthy :: "json option \<Rightarrow> bool" where
  \<comment> \<open>the truth value of \<open>d.get(key)\<close>\<close>
  "opt_truthy v = (case v of Some w \<Rightarrow> truthy w | None \<Rightarrow> False)"

definition get_or_empty :: "facts \<Rightarrow> string \<Rightarrow> string" where
  \<comment> \<open>\<open>facts.get(key, "")\<close>\<close>
  "get_or_empty f k = (case map_of f k of Some v \<Rightarrow> v | None \<Rightarrow> [])"

definition with_default_references :: "facts \<Rightarrow> (string \<times> json) list \<Rightarrow> (string \<times> json) list" where
  \<comment> \<open>\<open>if not data.get("references"): data["references"] = [...]\<close>\<close>
  "with_default_references f data =
     (if \<not> opt_truthy (map_of data ''references'')
      then AList.update ''references''
             (JArr [JObj [(''source'', JStr ''People''),
                          (''person_id'', JStr (get_or_empty f ''person_id''))]]) data
      else data)"

definition meta_of_data :: "(string \<times> json) list \<Rightarrow> (string \<times> json) list option" where
  \<comment> \<open>\<open>meta = data.get("meta") or {}\<close>; \<open>None\<close> when the value has no \<open>setdefault\<close>\<close>
  "meta_of_data data =
     (if opt_truthy (map_of data ''meta'')
      then (case map_of data ''meta'' of Some (JObj kvs) \<Rightarrow> Some kvs | _ \<Rightarrow> None)
      else Some [])"

definition setdefault :: "string \<Rightarrow> json \<Rightarrow> (string \<times> json) list \<Rightarrow> (string \<times> json) list" where
  "setdefault k v kvs = (case map_of kvs k of Some _ \<Rightarrow> kvs | None \<Rightarrow> AList.update k v kvs)"

definition generate_response :: "(json \<Rightarrow> rat option) \<Rightarrow> llm_outcome \<Rightarrow> facts \<Rightarrow> string \<Rightarrow> chat_response" where
  "generate_response lax_float outcome f loc =
     (case outcome of
        Llm_Json (JObj data) \<Rightarrow>
          (let data1 = with_default_references f data
           in case meta_of_data data1 of
                None \<Rightarrow> fallback loc (map_of f ''person_id'')
              | Some m \<Rightarrow>
                  (let data2 = AList.update ''meta'' (JObj (setdefault ''locale_used'' (JStr loc) m)) data1
                   in case model_validate lax_float data2 of
                        None \<Rightarrow> fallback loc (map_of f ''person_id'')
                      | Some r \<Rightarrow> r))
      | _ \<Rightarrow> fallback loc (map_of f ''person_id''))"


section \<open>Chat endpoint\<close>

text \<open>
  What one request meets outside the repository: the clock when the cache is consulted,
  what the spreadsheet read gives if it is made, the generation service (asked with the
  message, the facts, the profile text and the locale), the two library functions that
  the name extraction and the validation are parameterised by, the request id drawn for
  the request, and the three durations measured, already rounded.
\<close>

record env =
  now :: rat
  sheet_read :: fetch_outcome
  llm :: "string \<Rightarrow> facts \<Rightarrow> string \<Rightarrow> string \<Rightarrow> llm_outcome"
  re_search :: "name_pattern \<Rightarrow> string \<Rightarrow> string option"
  lax_float :: "json \<Rightarrow> rat option"
  request_id :: string
  t_sheets :: rat
  t_llm :: rat
  t_total :: rat

definition create_not_found_response :: "settings \<Rightarrow> string option \<Rightarrow> string option \<Rightarrow> chat_response" where
  "create_not_found_response S user_phone user_name =
     \<lparr> answer_text =
         (if str_truthy user_phone then not_found_with_phone_text
          else not_found_without_phone_text),
       intent = ''genel'',
       confidence = 3 / 10,
       references = [],
       meta = Some [(''locale_used'', JStr (default_locale S)), (''person_not_found'', JBool True)] \<rparr>"

definition create_error_response :: error_response where
  "create_error_response =
     \<lparr> error_response.answer_text = technical_problem_text,
       error_response.intent = ''genel'',
       error_response.confidence = 0,
       error_response.references = [] \<rparr>"

definition choose_locale :: "settings \<Rightarrow> string option \<Rightarrow> facts \<Rightarrow> string" where
  \<comment> \<open>\<open>user_locale or facts.get("locale") or settings.default_locale\<close>\<close>
  "choose_locale S user_locale f =
     (case user_locale of
        Some l \<Rightarrow> if l \<noteq> [] then l
                  else if str_truthy (map_of f ''locale'') then get_or_empty f ''locale''
                  else default_locale S
      | None \<Rightarrow> if str_truthy (map_of f ''locale'') then get_or_empty f ''locale''
                else default_locale S)"

definition has_people_ref :: "string \<Rightarrow> reference list \<Rightarrow> bool" where
  "has_people_ref pid refs =
     (\<exists>r \<in> set refs. source r = ''People'' \<and> reference.person_id r = Some pid)"

definition ensure_people_ref :: "facts \<Rightarrow> chat_response \<Rightarrow> chat_response" where
  \<comment> \<open>step 5 of the endpoint\<close>
  "ensure_people_ref f response =
     (if str_truthy (map_of f ''person_id'') then
        if \<not> has_people_ref (get_or_empty f ''person_id'') (references response)
        then response\<lparr>references := references response
                        @ [\<lparr> source = ''People'', person_id = Some (get_or_empty f ''person_id'') \<rparr>]\<rparr>
        else response
      else response)"

definition match_method :: "string option \<Rightarrow> string option \<Rightarrow> string" where
  "match_method user_phone user_name =
     (if str_truthy user_phone then ''phone''
      else if str_truthy user_name then ''name'' else ''none'')"

definition meta_truthy :: "(string \<times> json) list option \<Rightarrow> bool" where
  "meta_truthy m = (case m of Some kvs \<Rightarrow> kvs \<noteq> [] | None \<Rightarrow> False)"

definition meta_items :: "(string \<times> json) list option \<Rightarrow> (string \<times> json) list" where
  \<comment> \<open>\<open>response.meta or {}\<close>\<close>
  "meta_items m = (case m of Some kvs \<Rightarrow> kvs | None \<Rightarrow> [])"

definition enrich_meta :: "env \<Rightarrow> string \<Rightarrow> string \<Rightarrow> chat_response \<Rightarrow> chat_response" where
  \<comment> \<open>step 6 of the endpoint: a dictionary display, later keys overwrite earlier ones\<close>
  "enrich_meta E loc mm response =
     response\<lparr>meta := Some
       (AList.update ''match'' (JStr mm)
       (AList.update ''timing_ms''
          (JObj [(''sheets'', JNum (t_sheets E)), (''llm'', JNum (t_llm E)),
                 (''total'', JNum (t_total E))])
       (AList.update ''request_id'' (JStr (request_id E))
       (AList.update ''locale_used''
          (if meta_truthy (meta response)
           then (case map_of (meta_items (meta response)) ''locale_used'' of
                   Some v \<Rightarrow> v
                 | None \<Rightarrow> JStr loc)
           else JStr loc)
        (meta_items (meta response))))))\<rparr>"

definition user_phone_of :: "chat_request \<Rightarrow> string option" where
  \<comment> \<open>\<open>request.user.phone if request.user else None\<close>\<close>
  "user_phone_of request = (case user request of Some u \<Rightarrow> user_info.phone u | None \<Rightarrow> None)"

definition user_locale_of :: "chat_request \<Rightarrow> string option" where
  "user_locale_of request = (case user request of Some u \<Rightarrow> user_info.locale u | None \<Rightarrow> None)"

definition user_name_of :: "env \<Rightarrow> chat_request \<Rightarrow> string option" where
  \<comment> \<open>the name of the request, or else the name extracted from the message\<close>
  "user_name_of E request =
     (let user_name = (case user request of Some u \<Rightarrow> user_info.name u | None \<Rightarrow> None)
      in if \<not> str_truthy user_name
         then extract_name_from_message (re_search E) (message request)
         else user_name)"

definition chat_endpoint :: "settings \<Rightarrow> env \<Rightarrow> chat_request \<Rightarrow> service_state \<Rightarrow> http_result \<times> service_state" where
  "chat_endpoint S E request st =
     (case get_people_data S (now E) (sheet_read E) st of
        (Inl err, st1) \<Rightarrow> (Http_500 create_error_response, st1)
      | (Inr people_data, st1) \<Rightarrow>
          (let user_phone = user_phone_of request;
               user_locale = user_locale_of request;
               user_name = user_name_of E request
           in case find_person people_data user_phone user_name of
                None \<Rightarrow> (Http_200 (create_not_found_response S user_phone user_name), st1)
              | Some p \<Rightarrow>
                  (let f = build_facts p;
                       prof = get_or_empty f ''profile_text'';
                       loc = choose_locale S user_locale f;
                       response = generate_response (lax_float E)
                                    (llm E (message request) f prof loc) f loc;
                       st2 = st1\<lparr>generations := generations st1 + 1\<rparr>
                   in (Http_200 (enrich_meta E loc (match_method user_phone user_name)
                                   (ensure_people_ref f response)),
                       st2))))"

definition ok_response :: "http_result \<Rightarrow> chat_response option" where
  \<comment> \<open>the body of a 200 response; nothing for the 500 of the outermost handler\<close>
  "ok_response h = (case h of Http_200 r \<Rightarrow> Some r | Http_500 _ \<Rightarrow> None)"


section \<open>Name matching as the specification words it\<close>

text \<open>
  These definitions follow the specification, not the source; \<open>find_by_name\<close> above is
  the source. The ratio of the specification case-folds and trims both inputs and is
  \<open>0\<close> when either is empty. For every record the score is the better of the ratios
  against the full name and against the preferred name; the best record is the first one
  with the greatest score, and it is returned when that score is at least \<open>0.85\<close>.
\<close>

definition spec_ratio :: "string \<Rightarrow> string \<Rightarrow> rat" where
  "spec_ratio a b = (if a = [] \<or> b = [] then 0 else ratio (strip (lower a)) (strip (lower b)))"

definition spec_score :: "string \<Rightarrow> person \<Rightarrow> rat" where
  "spec_score raw_name p =
     max (spec_ratio raw_name (full_name p)) (spec_ratio raw_name (preferred_name p))"

fun spec_best :: "string \<Rightarrow> person list \<Rightarrow> (person \<times> rat) option" where
  "spec_best raw_name [] = None"
| "spec_best raw_name (p # ps) =
     (case spec_best raw_name ps of
        None \<Rightarrow> Some (p, spec_score raw_name p)
      | Some (q, s) \<Rightarrow>
          if spec_score raw_name p \<ge> s then Some (p, spec_score raw_name p) else Some (q, s))"

definition spec_find_by_name :: "person list \<Rightarrow> string \<Rightarrow> person option" where
  "spec_find_by_name people_data raw_name =
     (case spec_best raw_name people_data of
        Some (p, s) \<Rightarrow> if s \<ge> 85 / 100 then Some p else None
      | None \<Rightarrow> None)"


section \<open>Example data\<close>

text \<open>Two rows of the sheet, as the spreadsheet read returns them, and the records they parse to.\<close>

definition example_rows :: "string list list" where
  "example_rows =
     [[''p1'', ''Ayse Yilmaz'', ''Ayse'', [], [], [], ''+905551234567'', ''tr-TR'', [], [], []],
      [''p2'', ''Mehmet Demir'', [], [], [], [], ''+905550000000'', [], [], [], []]]"

definition example_people :: "person list" where
  "example_people = List.map_filter parse_row example_rows"

definition person_p1 :: person where
  "person_p1 =
     \<lparr> person.person_id = ''p1'', full_name = ''Ayse Yilmaz'', preferred_name = ''Ayse'',
       school = [], department = [], email = [], person.phone = ''+905551234567'',
       person.locale = ''tr-TR'', profile_doc_id = [], profile_text = [], last_updated = [] \<rparr>"

text \<open>
  The default settings, a client that has fetched nothing yet, and one request with what
  it meets: the rows the sheet gives, the outcome of the generation call, no name found
  in the message, no lax coercion to a float.
\<close>

definition example_settings :: settings where
  "example_settings = \<lparr> default_locale = ''tr-TR'', cache_ttl_ms = 60000 \<rparr>"

definition initial_state :: service_state where
  "initial_state = \<lparr> cache = None, fetches = 0, generations = 0 \<rparr>"

definition example_env :: "string list list \<Rightarrow> llm_outcome \<Rightarrow> env" where
  "example_env rows outcome =
     \<lparr> now = 0, sheet_read = Fetch_Values rows, llm = (\<lambda>m f t l. outcome),
       re_search = (\<lambda>pat m. None), lax_float = (\<lambda>v. None), request_id = ''1a2b3c4d'',
       t_sheets = 12, t_llm = 340, t_total = 353 \<rparr>"

definition example_request :: "string option \<Rightarrow> string option \<Rightarrow> chat_request" where
  "example_request ph nm =
     \<lparr> message = ''Merhaba'', user = Some \<lparr> name = nm, phone = ph, locale = None \<rparr> \<rparr>"

text \<open>A generated answer that is valid but for its references, which are the parameter.\<close>

definition example_reply :: "json list \<Rightarrow> llm_outcome" where
  "example_reply refs =
     Llm_Json (JObj [(''answer_text'', JStr ''Merhaba''), (''intent'', JStr ''genel''),
                     (''confidence'', JNum (9 / 10)), (''references'', JArr refs)])"

definition json_ref :: "string \<Rightarrow> string \<Rightarrow> json" where
  "json_ref s p = JObj [(''source'', JStr s), (''person_id'', JStr p)]"

definition person_p2 :: person where
  "person_p2 =
     \<lparr> person.person_id = ''p2'', full_name = ''Mehmet Demir'', preferred_name = [],
       school = [], department = [], email = [], person.phone = ''+905550000000'',
       person.locale = [], profile_doc_id = [], profile_text = [], last_updated = [] \<rparr>"

text \<open>A sheet whose only row has an empty \<open>person_id\<close> cell.\<close>

definition rows_without_id :: "string list list" where
  "rows_without_id = [[[], ''Ali Veli'', [], [], [], [], ''+905559999999'', [], [], [], []]]"

definition person_without_id :: person where
  "person_without_id =
     \<lparr> person.person_id = [], full_name = ''Ali Veli'', preferred_name = [],
       school = [], department = [], email = [], person.phone = ''+905559999999'',
       person.locale = [], profile_doc_id = [], profile_text = [], last_updated = [] \<rparr>"

text \<open>The client after one fetch at time 0 with the TTL of 60 seconds.\<close>

definition fetched_state :: "person list \<Rightarrow> service_state" where
  "fetched_state people_data = \<lparr> cache = Some (people_data, 60), fetches = 1, generations = 0 \<rparr>"

text \<open>Two records with similar names.\<close>

definition namesake_rows :: "string list list" where
  "namesake_rows =
     [[''p1'', ''Ali Veli'', [], [], [], [], ''+905551111111'', [], [], [], []],
      [''p2'', ''Ali Veli B'', [], [], [], [], ''+905552222222'', [], [], [], []]]"


section \<open>Phone normalisation\<close>

lemma is_digit_plus: "\<not> is_digit (CHR ''+'')"
  by (simp add: is_digit_def)

lemma normalize_phone_shape:
  "normalize_phone x = [] \<or>
   (prefix ''+'' (normalize_phone x) \<and>
    filter (\<lambda>c. is_digit c \<or> c = CHR ''+'') (normalize_phone x) = normalize_phone x)"
proof (cases "x = []")
  case True
  then show ?thesis by (simp add: normalize_phone_def)
next
  case False
  let ?n = "filter (\<lambda>c. is_digit c \<or> c = CHR ''+'') x"
  have d9: "is_digit (CHR ''9'')" and d0: "is_digit (CHR ''0'')"
    by (simp_all add: is_digit_def)
  have drop: "filter (\<lambda>c. is_digit c \<or> c = CHR ''+'') (drop 1 ?n) = drop 1 ?n"
    by (rule filter_True) (auto dest: in_set_dropD)
  show ?thesis
    using False d9 d0 drop
    by (auto simp: normalize_phone_def Let_def)
qed

text \<open>
  C8. Phone normalisation is idempotent: for every input string \<open>x\<close>, normalising the
  normalised string gives the normalised string again. This covers inputs with interior
  \<open>+\<close> characters, inputs without digits and the empty string, since nothing is assumed
  of \<open>x\<close>.
\<close>

theorem normalize_phone_idempotent:
  "normalize_phone (normalize_phone x) = normalize_phone x"
proof -
  from normalize_phone_shape[of x] show ?thesis
  proof
    assume "normalize_phone x = []"
    then show ?thesis by (simp add: normalize_phone_def)
  next
    assume h: "prefix ''+'' (normalize_phone x) \<and>
      filter (\<lambda>c. is_digit c \<or> c = CHR ''+'') (normalize_phone x) = normalize_phone x"
    then have "normalize_phone x \<noteq> []" by auto
    with h show ?thesis
      by (subst normalize_phone_def) (simp add: Let_def)
  qed
qed

lemma filter_is_plus:
  "filter (\<lambda>c. is_digit c \<or> c = CHR ''+'') s = ''+'' \<longleftrightarrow>
     (\<forall>c \<in> set s. \<not> is_digit c) \<and> length (filter (\<lambda>c. c = CHR ''+'') s) = 1"
proof (induction s)
  case Nil
  then show ?case by simp
next
  case (Cons a s)
  have e: "filter (\<lambda>c. is_digit c \<or> c = CHR ''+'') s = [] \<longleftrightarrow>
      (\<forall>c \<in> set s. \<not> is_digit c) \<and> filter (\<lambda>c. c = CHR ''+'') s = []"
    by (auto simp: filter_empty_conv)
  show ?case
    using Cons.IH e is_digit_plus by (cases "a = CHR ''+''"; cases "is_digit a") auto
qed

lemma filter_is_empty:
  "filter (\<lambda>c. is_digit c \<or> c = CHR ''+'') s = [] \<longleftrightarrow>
     (\<forall>c \<in> set s. \<not> is_digit c) \<and> length (filter (\<lambda>c. c = CHR ''+'') s) = 0"
  by (auto simp: filter_empty_conv)

lemma normalize_phone_is_plus:
  "normalize_phone s = ''+'' \<longleftrightarrow>
     s \<noteq> [] \<and> (\<forall>c \<in> set s. \<not> is_digit c) \<and> length (filter (\<lambda>c. c = CHR ''+'') s) \<le> 1"
proof (cases "s = []")
  case True
  then show ?thesis by (simp add: normalize_phone_def)
next
  case False
  let ?n = "filter (\<lambda>c. is_digit c \<or> c = CHR ''+'') s"
  have "normalize_phone s = ''+'' \<longleftrightarrow> ?n = ''+'' \<or> ?n = []"
    using False by (auto simp: normalize_phone_def Let_def prefix_def)
  also have "\<dots> \<longleftrightarrow> (\<forall>c \<in> set s. \<not> is_digit c) \<and> length (filter (\<lambda>c. c = CHR ''+'') s) \<le> 1"
    unfolding filter_is_plus filter_is_empty by (auto simp: le_Suc_eq)
  finally show ?thesis using False by simp
qed

text \<open>
  C9, as amended. For every non-empty string with no digit and no \<open>+\<close>, normalisation
  returns \<open>"+"\<close> and not the empty string, so two such strings normalise to the same value;
  and \<open>find_by_phone\<close> with such a query returns the first record whose stored phone
  normalises to \<open>"+"\<close> as well, which is the first record whose stored phone is non-empty,
  has no digit and has at most one \<open>+\<close>.
\<close>

theorem digit_free_phone_is_plus:
  assumes "x \<noteq> []" and "\<forall>c \<in> set x. \<not> is_digit c \<and> c \<noteq> CHR ''+''"
    and "y \<noteq> []" and "\<forall>c \<in> set y. \<not> is_digit c \<and> c \<noteq> CHR ''+''"
  shows "normalize_phone x = ''+'' \<and> normalize_phone y = normalize_phone x \<and>
         find_by_phone people_data x =
           find (\<lambda>p. person.phone p \<noteq> [] \<and> (\<forall>c \<in> set (person.phone p). \<not> is_digit c) \<and>
                      length (filter (\<lambda>c. c = CHR ''+'') (person.phone p)) \<le> 1) people_data"
proof -
  have empty: "filter (\<lambda>c. c = CHR ''+'') z = []"
    if "\<forall>c \<in> set z. \<not> is_digit c \<and> c \<noteq> CHR ''+''" for z
    using that by (auto simp: filter_empty_conv)
  have nx: "normalize_phone x = ''+''"
    using assms(1,2) empty[of x] by (simp add: normalize_phone_is_plus)
  have ny: "normalize_phone y = ''+''"
    using assms(3,4) empty[of y] by (simp add: normalize_phone_is_plus)
  have "find_by_phone people_data x = find (\<lambda>p. normalize_phone (person.phone p) = ''+'') people_data"
    using assms(1) nx by (simp add: find_by_phone_def)
  also have "\<dots> =
      find (\<lambda>p. person.phone p \<noteq> [] \<and> (\<forall>c \<in> set (person.phone p). \<not> is_digit c) \<and>
                 length (filter (\<lambda>c. c = CHR ''+'') (person.phone p)) \<le> 1) people_data"
    by (simp only: normalize_phone_is_plus)
  finally have "find_by_phone people_data x =
      find (\<lambda>p. person.phone p \<noteq> [] \<and> (\<forall>c \<in> set (person.phone p). \<not> is_digit c) \<and>
                 length (filter (\<lambda>c. c = CHR ''+'') (person.phone p)) \<le> 1) people_data" .
  with nx ny show ?thesis by (simp only: simp_thms)
qed

theorem digit_free_phone_is_plus_witness:
  "normalize_phone ''-'' = ''+'' \<and> normalize_phone '' '' = normalize_phone ''-'' \<and>
   find_by_phone
     (List.map_filter parse_row
       [[''p1'', ''A'', [], [], [], [], ''0555'', [], [], [], []],
        [''p2'', ''B'', [], [], [], [], ''n/a'', [], [], [], []]]) ''-'' =
   find (\<lambda>p. person.phone p \<noteq> [] \<and> (\<forall>c \<in> set (person.phone p). \<not> is_digit c) \<and>
              length (filter (\<lambda>c. c = CHR ''+'') (person.phone p)) \<le> 1)
     (List.map_filter parse_row
       [[''p1'', ''A'', [], [], [], [], ''0555'', [], [], [], []],
        [''p2'', ''B'', [], [], [], [], ''n/a'', [], [], [], []]])"
proof -
  have h1: "''-'' \<noteq> []" by simp
  have h2: "\<forall>c \<in> set ''-''. \<not> is_digit c \<and> c \<noteq> CHR ''+''" by (simp add: is_digit_def)
  have h3: "'' '' \<noteq> []" by simp
  have h4: "\<forall>c \<in> set '' ''. \<not> is_digit c \<and> c \<noteq> CHR ''+''" by (simp add: is_digit_def)
  show ?thesis by (rule digit_free_phone_is_plus[OF h1 h2 h3 h4])
qed

text \<open>
  C9 as stated fails. With the stored phones \<open>"++"\<close>, \<open>"+"\<close> and \<open>"-"\<close>, in this order, the
  query \<open>"-"\<close> finds the second record: not the first record whose stored phone is
  non-empty and without digits (the first one), and not the first record whose stored
  phone is non-empty and without digits and \<open>+\<close> (the third one).
\<close>

theorem digit_free_phone_counterexample:
  "map_option person.person_id
     (find_by_phone
       (List.map_filter parse_row
         [[''p1'', ''A'', [], [], [], [], ''++'', [], [], [], []],
          [''p2'', ''B'', [], [], [], [], ''+'', [], [], [], []],
          [''p3'', ''C'', [], [], [], [], ''-'', [], [], [], []]]) ''-'') = Some ''p2'' \<and>
   map_option person.person_id
     (find (\<lambda>p. person.phone p \<noteq> [] \<and> (\<forall>c \<in> set (person.phone p). \<not> is_digit c))
       (List.map_filter parse_row
         [[''p1'', ''A'', [], [], [], [], ''++'', [], [], [], []],
          [''p2'', ''B'', [], [], [], [], ''+'', [], [], [], []],
          [''p3'', ''C'', [], [], [], [], ''-'', [], [], [], []]])) = Some ''p1'' \<and>
   map_option person.person_id
     (find (\<lambda>p. person.phone p \<noteq> [] \<and>
                (\<forall>c \<in> set (person.phone p). \<not> is_digit c \<and> c \<noteq> CHR ''+''))
       (List.map_filter parse_row
         [[''p1'', ''A'', [], [], [], [], ''++'', [], [], [], []],
          [''p2'', ''B'', [], [], [], [], ''+'', [], [], [], []],
          [''p3'', ''C'', [], [], [], [], ''-'', [], [], [], []]])) = Some ''p3''"
  by (simp add: parse_row_def headers_def find_by_phone_def
      normalize_phone_def is_digit_def)


section \<open>Resolution order\<close>

lemma find_Some_ex:
  "r \<in> set xs \<Longrightarrow> P r \<Longrightarrow> \<exists>a. find P xs = Some a \<and> P a \<and> a \<in> set xs"
  by (induction xs) auto

text \<open>
  C6. If a phone is supplied and its normalised form equals the normalised stored phone
  of some record, \<open>find_person\<close> returns the first such record, whatever name is passed
  (the name does not occur in the result). The name is consulted only when no phone is
  supplied or the phone lookup finds nothing; then the result is that of the name
  lookup alone.
\<close>

theorem phone_match_has_priority:
  "(ph \<noteq> [] \<and> r \<in> set people_data \<and>
      normalize_phone (person.phone r) = normalize_phone ph \<longrightarrow>
      (\<exists>a. find_person people_data (Some ph) user_name = Some a \<and>
           find (\<lambda>p. normalize_phone (person.phone p) = normalize_phone ph) people_data = Some a \<and>
           normalize_phone (person.phone a) = normalize_phone ph)) \<and>
   (find_by_phone people_data ph = None \<longrightarrow>
      find_person people_data (Some ph) user_name = find_person people_data None user_name) \<and>
   find_person people_data None user_name =
     (case user_name of
        Some nm \<Rightarrow> if nm \<noteq> [] then find_by_name people_data nm else None
      | None \<Rightarrow> None)"
proof (intro conjI impI)
  assume h: "ph \<noteq> [] \<and> r \<in> set people_data \<and>
      normalize_phone (person.phone r) = normalize_phone ph"
  then obtain a where a: "find (\<lambda>p. normalize_phone (person.phone p) = normalize_phone ph) people_data = Some a"
      "normalize_phone (person.phone a) = normalize_phone ph"
    using find_Some_ex[of r people_data "\<lambda>p. normalize_phone (person.phone p) = normalize_phone ph"]
    by auto
  with h have "find_person people_data (Some ph) user_name = Some a"
    by (simp add: find_person_def find_by_phone_def)
  with a show "\<exists>a. find_person people_data (Some ph) user_name = Some a \<and>
           find (\<lambda>p. normalize_phone (person.phone p) = normalize_phone ph) people_data = Some a \<and>
           normalize_phone (person.phone a) = normalize_phone ph"
    by simp
next
  assume "find_by_phone people_data ph = None"
  then show "find_person people_data (Some ph) user_name = find_person people_data None user_name"
    by (simp add: find_person_def)
next
  show "find_person people_data None user_name =
     (case user_name of
        Some nm \<Rightarrow> if nm \<noteq> [] then find_by_name people_data nm else None
      | None \<Rightarrow> None)"
    by (simp add: find_person_def)
qed

text \<open>
  The phone \<open>0555 123 45 67\<close> matches record \<open>p1\<close> and the name \<open>Mehmet Demir\<close> matches
  record \<open>p2\<close>: the result is \<open>p1\<close>. The phone \<open>0999\<close> matches no record, and the result is
  that of the name lookup, \<open>p2\<close>.
\<close>

theorem phone_match_has_priority_witness:
  "(\<exists>a. find_person example_people (Some ''0555 123 45 67'') (Some ''Mehmet Demir'') = Some a \<and>
        find (\<lambda>p. normalize_phone (person.phone p) = normalize_phone ''0555 123 45 67'')
          example_people = Some a \<and>
        normalize_phone (person.phone a) = normalize_phone ''0555 123 45 67'') \<and>
   map_option person.person_id
     (find_person example_people (Some ''0555 123 45 67'') (Some ''Mehmet Demir'')) = Some ''p1'' \<and>
   map_option person.person_id (find_by_name example_people ''Mehmet Demir'') = Some ''p2'' \<and>
   find_person example_people (Some ''0999'') (Some ''Mehmet Demir'') =
     find_person example_people None (Some ''Mehmet Demir'') \<and>
   map_option person.person_id
     (find_person example_people (Some ''0999'') (Some ''Mehmet Demir'')) = Some ''p2''"
proof -
  have mem: "person_p1 \<in> set example_people"
    by (simp add: example_people_def example_rows_def parse_row_def
        headers_def person_p1_def)
  have eq: "normalize_phone (person.phone person_p1) = normalize_phone ''0555 123 45 67''"
    by (simp add: person_p1_def normalize_phone_def is_digit_def)
  have ne: "''0555 123 45 67'' \<noteq> []" by simp
  have none: "find_by_phone example_people ''0999'' = None"
    by (simp add: example_people_def example_rows_def parse_row_def
        headers_def find_by_phone_def normalize_phone_def is_digit_def)
  note t = phone_match_has_priority[of "''0555 123 45 67''" person_p1 example_people
      "Some ''Mehmet Demir''"]
  note u = phone_match_has_priority[of "''0999''" person_p1 example_people
      "Some ''Mehmet Demir''"]
  have a: "\<exists>a. find_person example_people (Some ''0555 123 45 67'') (Some ''Mehmet Demir'') = Some a \<and>
        find (\<lambda>p. normalize_phone (person.phone p) = normalize_phone ''0555 123 45 67'')
          example_people = Some a \<and>
        normalize_phone (person.phone a) = normalize_phone ''0555 123 45 67''"
    using t ne mem eq by blast
  have b: "find_person example_people (Some ''0999'') (Some ''Mehmet Demir'') =
     find_person example_people None (Some ''Mehmet Demir'')"
    using u none by blast
  have c: "map_option person.person_id
     (find_person example_people (Some ''0555 123 45 67'') (Some ''Mehmet Demir'')) = Some ''p1''"
    by code_simp
  have d: "map_option person.person_id (find_by_name example_people ''Mehmet Demir'') = Some ''p2''"
    by code_simp
  have e: "map_option person.person_id
     (find_person example_people (Some ''0999'') (Some ''Mehmet Demir'')) = Some ''p2''"
    by code_simp
  from a b c d e show ?thesis by blast
qed


section \<open>Endpoint lemmas\<close>

lemma get_people_data_generations:
  "get_people_data S t outcome st = (res, st1) \<Longrightarrow> generations st1 = generations st"
  by (auto simp: get_people_data_def Let_def split: option.splits fetch_outcome.splits if_splits)

lemma chat_endpoint_not_found:
  assumes "get_people_data S (now E) (sheet_read E) st = (Inr people_data, st1)"
    and "find_person people_data (user_phone_of request) (user_name_of E request) = None"
  shows "chat_endpoint S E request st =
           (Http_200 (create_not_found_response S (user_phone_of request) (user_name_of E request)), st1)"
  using assms by (simp add: chat_endpoint_def Let_def)

lemma chat_endpoint_found:
  assumes "get_people_data S (now E) (sheet_read E) st = (Inr people_data, st1)"
    and "find_person people_data (user_phone_of request) (user_name_of E request) = Some p"
  shows "chat_endpoint S E request st =
           (Http_200
              (enrich_meta E (choose_locale S (user_locale_of request) (build_facts p))
                 (match_method (user_phone_of request) (user_name_of E request))
                 (ensure_people_ref (build_facts p)
                    (generate_response (lax_float E)
                       (llm E (message request) (build_facts p)
                          (get_or_empty (build_facts p) ''profile_text'')
                          (choose_locale S (user_locale_of request) (build_facts p)))
                       (build_facts p)
                       (choose_locale S (user_locale_of request) (build_facts p))))),
            st1\<lparr>generations := generations st1 + 1\<rparr>)"
  using assms by (simp add: chat_endpoint_def Let_def)

lemma not_found_texts_differ: "not_found_with_phone_text \<noteq> not_found_without_phone_text"
  by (simp add: not_found_with_phone_text_def not_found_without_phone_text_def)

lemma map_of_update_same: "map_of (AList.update k v al) k = Some v"
  by (simp add: update_conv')

lemma map_of_update_other: "k' \<noteq> k \<Longrightarrow> map_of (AList.update k v al) k' = map_of al k'"
  by (simp add: update_conv')

lemma facts_person_id: "map_of (build_facts p) ''person_id'' = Some (person.person_id p)"
  by (simp add: build_facts_def)

lemma references_enrich_meta: "references (enrich_meta E loc mm r) = references r"
  by (simp add: enrich_meta_def)

lemma fields_enrich_meta:
  "answer_text (enrich_meta E loc mm r) = answer_text r"
  "intent (enrich_meta E loc mm r) = intent r"
  "confidence (enrich_meta E loc mm r) = confidence r"
  by (simp_all add: enrich_meta_def)

lemma fields_ensure_people_ref:
  "answer_text (ensure_people_ref f r) = answer_text r"
  "intent (ensure_people_ref f r) = intent r"
  "confidence (ensure_people_ref f r) = confidence r"
  "meta (ensure_people_ref f r) = meta r"
  by (simp_all add: ensure_people_ref_def)

lemma references_ensure_people_ref:
  "references (ensure_people_ref (build_facts p) r) =
     references r @
       (if person.person_id p \<noteq> [] \<and> \<not> has_people_ref (person.person_id p) (references r)
        then [\<lparr> source = ''People'', person_id = Some (person.person_id p) \<rparr>] else [])"
  by (simp add: ensure_people_ref_def facts_person_id str_truthy_def get_or_empty_def)

lemma has_people_ref_ensure:
  "person.person_id p \<noteq> [] \<Longrightarrow>
   has_people_ref (person.person_id p) (references (ensure_people_ref (build_facts p) r))"
proof (cases "has_people_ref (person.person_id p) (references r)")
  case True
  then show ?thesis by (simp add: references_ensure_people_ref)
next
  case False
  assume "person.person_id p \<noteq> []"
  with False show ?thesis
    by (simp add: references_ensure_people_ref) (simp add: has_people_ref_def)
qed

lemma generate_response_fails:
  assumes "case outcome of
             Llm_Json (JObj data) \<Rightarrow>
               validate_str (map_of data ''answer_text'') = None \<or>
               validate_str (map_of data ''intent'') = None \<or>
               validate_confidence lf (map_of data ''confidence'') = None \<or>
               (opt_truthy (map_of data ''references'') \<and>
                validate_references (map_of data ''references'') = None) \<or>
               (opt_truthy (map_of data ''meta'') \<and> validate_meta (map_of data ''meta'') = None)
           | _ \<Rightarrow> True"
  shows "generate_response lf outcome f loc = fallback loc (map_of f ''person_id'')"
proof (cases outcome)
  case (Llm_Json v)
  show ?thesis
  proof (cases v)
    case (JObj data)
    let ?d1 = "with_default_references f data"
    have k: "map_of ?d1 ''answer_text'' = map_of data ''answer_text''"
      "map_of ?d1 ''intent'' = map_of data ''intent''"
      "map_of ?d1 ''confidence'' = map_of data ''confidence''"
      "map_of ?d1 ''meta'' = map_of data ''meta''"
      by (simp_all add: with_default_references_def map_of_update_other)
    have r: "opt_truthy (map_of data ''references'') \<Longrightarrow>
        map_of ?d1 ''references'' = map_of data ''references''"
      by (simp add: with_default_references_def)
    show ?thesis
    proof (cases "meta_of_data ?d1")
      case None
      then show ?thesis using Llm_Json JObj by (simp add: generate_response_def Let_def)
    next
      case (Some m)
      then have nometa: "\<not> (opt_truthy (map_of data ''meta'') \<and> validate_meta (map_of data ''meta'') = None)"
        by (auto simp: meta_of_data_def k validate_meta_def opt_truthy_def
            split: option.splits json.splits if_splits)
      let ?d2 = "AList.update ''meta'' (JObj (setdefault ''locale_used'' (JStr loc) m)) ?d1"
      have k2: "map_of ?d2 ''answer_text'' = map_of data ''answer_text''"
        "map_of ?d2 ''intent'' = map_of data ''intent''"
        "map_of ?d2 ''confidence'' = map_of data ''confidence''"
        "map_of ?d2 ''references'' = map_of ?d1 ''references''"
        by (simp_all add: map_of_update_other k)
      have "model_validate lf ?d2 = None"
        using assms nometa r unfolding Llm_Json JObj model_validate_def k2
        by (auto split: option.splits)
      then show ?thesis
        using Llm_Json JObj Some by (simp add: generate_response_def Let_def)
    qed
  qed (simp_all add: generate_response_def Llm_Json)
qed (simp_all add: generate_response_def)

lemma meta_of_data_with_default:
  "meta_of_data (with_default_references f data) = meta_of_data data"
  by (simp add: meta_of_data_def with_default_references_def map_of_update_other)

lemma generate_response_succeeds:
  assumes "validate_str (map_of data ''answer_text'') = Some a"
    and "validate_str (map_of data ''intent'') = Some i"
    and "validate_confidence lf (map_of data ''confidence'') = Some c"
    and "meta_of_data data = Some m"
    and "opt_truthy (map_of data ''references'') \<longrightarrow>
           validate_references (map_of data ''references'') = Some refs"
  shows "generate_response lf (Llm_Json (JObj data)) f loc =
           \<lparr> answer_text = a, intent = i, confidence = c,
             references =
               (if opt_truthy (map_of data ''references'') then refs
                else [\<lparr> source = ''People'', person_id = Some (get_or_empty f ''person_id'') \<rparr>]),
             meta = Some (setdefault ''locale_used'' (JStr loc) m) \<rparr>"
proof -
  let ?d1 = "with_default_references f data"
  let ?d2 = "AList.update ''meta'' (JObj (setdefault ''locale_used'' (JStr loc) m)) ?d1"
  have k1: "map_of ?d1 ''answer_text'' = map_of data ''answer_text''"
    "map_of ?d1 ''intent'' = map_of data ''intent''"
    "map_of ?d1 ''confidence'' = map_of data ''confidence''"
    by (simp_all add: with_default_references_def map_of_update_other)
  have k2: "map_of ?d2 ''answer_text'' = map_of data ''answer_text''"
    "map_of ?d2 ''intent'' = map_of data ''intent''"
    "map_of ?d2 ''confidence'' = map_of data ''confidence''"
    "map_of ?d2 ''references'' = map_of ?d1 ''references''"
    "map_of ?d2 ''meta'' = Some (JObj (setdefault ''locale_used'' (JStr loc) m))"
    by (simp_all add: map_of_update_other map_of_update_same k1)
  have refs: "validate_references (map_of ?d1 ''references'') =
      Some (if opt_truthy (map_of data ''references'') then refs
            else [\<lparr> source = ''People'', person_id = Some (get_or_empty f ''person_id'') \<rparr>])"
  proof (cases "opt_truthy (map_of data ''references'')")
    case True
    then show ?thesis using assms(5) by (simp add: with_default_references_def)
  next
    case False
    then show ?thesis
      by (simp add: with_default_references_def map_of_update_same validate_references_def
          validate_reference_def)
  qed
  have "model_validate lf ?d2 =
      Some \<lparr> answer_text = a, intent = i, confidence = c,
             references =
               (if opt_truthy (map_of data ''references'') then refs
                else [\<lparr> source = ''People'', person_id = Some (get_or_empty f ''person_id'') \<rparr>]),
             meta = Some (setdefault ''locale_used'' (JStr loc) m) \<rparr>"
    unfolding model_validate_def k2 refs using assms(1-3)
    by (simp add: validate_meta_def)
  then show ?thesis
    using assms(4) by (simp add: generate_response_def meta_of_data_with_default Let_def)
qed

lemma references_generate_response:
  "references (generate_response LF outcome f loc) =
     (case outcome of
        Llm_Json (JObj data) \<Rightarrow>
          if validate_str (map_of data ''answer_text'') = None \<or>
                validate_str (map_of data ''intent'') = None \<or>
                validate_confidence LF (map_of data ''confidence'') = None \<or>
                (opt_truthy (map_of data ''references'') \<and>
                 validate_references (map_of data ''references'') = None) \<or>
                (opt_truthy (map_of data ''meta'') \<and> validate_meta (map_of data ''meta'') = None)
          then references (fallback loc (map_of f ''person_id''))
          else if opt_truthy (map_of data ''references'')
               then (case validate_references (map_of data ''references'') of
                       Some refs \<Rightarrow> refs | None \<Rightarrow> [])
               else [\<lparr> source = ''People'', person_id = Some (get_or_empty f ''person_id'') \<rparr>]
      | _ \<Rightarrow> references (fallback loc (map_of f ''person_id'')))"
proof (cases "case outcome of
             Llm_Json (JObj data) \<Rightarrow>
               validate_str (map_of data ''answer_text'') = None \<or>
                validate_str (map_of data ''intent'') = None \<or>
                validate_confidence LF (map_of data ''confidence'') = None \<or>
                (opt_truthy (map_of data ''references'') \<and>
                 validate_references (map_of data ''references'') = None) \<or>
                (opt_truthy (map_of data ''meta'') \<and> validate_meta (map_of data ''meta'') = None)
           | _ \<Rightarrow> True")
  case True
  from generate_response_fails[OF True, of f loc] True show ?thesis
    by (auto split: llm_outcome.splits json.splits)
next
  case False
  then obtain data where o: "outcome = Llm_Json (JObj data)"
    by (auto split: llm_outcome.splits json.splits)
  from False o obtain a i c where v:
    "validate_str (map_of data ''answer_text'') = Some a"
    "validate_str (map_of data ''intent'') = Some i"
    "validate_confidence LF (map_of data ''confidence'') = Some c"
    by auto
  from False o have nr: "\<not> (opt_truthy (map_of data ''references'') \<and>
                 validate_references (map_of data ''references'') = None)"
    and nm: "\<not> (opt_truthy (map_of data ''meta'') \<and> validate_meta (map_of data ''meta'') = None)"
    by auto
  from nm have "meta_of_data data \<noteq> None"
    by (auto simp: meta_of_data_def validate_meta_def opt_truthy_def
        split: option.splits json.splits)
  then obtain m where m: "meta_of_data data = Some m"
    by auto
  obtain refs where r: "opt_truthy (map_of data ''references'') \<longrightarrow>
           validate_references (map_of data ''references'') = Some refs"
    using nr by (cases "validate_references (map_of data ''references'')") auto
  from generate_response_succeeds[OF v m r, of f loc] False o r show ?thesis
    by auto
qed



lemmas example_defs = example_settings_def initial_state_def example_env_def
  example_request_def example_reply_def json_ref_def example_people_def example_rows_def
  person_p1_def person_p2_def rows_without_id_def fetched_state_def

lemma example_fetch:
  "get_people_data example_settings (now (example_env example_rows outcome))
     (sheet_read (example_env example_rows outcome)) initial_state =
   (Inr example_people, fetched_state example_people)"
  by (simp add: example_defs get_people_data_def cache_lookup_def parse_row_def headers_def Let_def)

lemma example_find_p1:
  "find_person example_people (user_phone_of (example_request (Some ''0555 123 45 67'') None))
     (user_name_of (example_env example_rows outcome)
        (example_request (Some ''0555 123 45 67'') None)) = Some person_p1"
  by (simp add: example_defs user_phone_of_def user_name_of_def str_truthy_def
      extract_name_from_message_def find_person_def find_by_phone_def normalize_phone_def
      is_digit_def parse_row_def headers_def)



lemma example_find_none:
  "find_person example_people (user_phone_of (example_request (Some ''0999'') None))
     (user_name_of (example_env example_rows outcome) (example_request (Some ''0999'') None)) = None"
  by (simp add: example_defs user_phone_of_def user_name_of_def str_truthy_def
      extract_name_from_message_def find_person_def find_by_phone_def normalize_phone_def
      is_digit_def parse_row_def headers_def)

lemma example_fetch_without_id:
  "get_people_data example_settings (now (example_env rows_without_id outcome))
     (sheet_read (example_env rows_without_id outcome)) initial_state =
   (Inr [person_without_id], fetched_state [person_without_id])"
  by (simp add: example_defs person_without_id_def get_people_data_def cache_lookup_def
      parse_row_def headers_def Let_def)

lemma example_find_without_id:
  "find_person [person_without_id]
     (user_phone_of (example_request (Some ''0555 999 99 99'') None))
     (user_name_of (example_env rows_without_id outcome)
        (example_request (Some ''0555 999 99 99'') None)) = Some person_without_id"
  by (simp add: example_defs person_without_id_def user_phone_of_def user_name_of_def
      str_truthy_def extract_name_from_message_def find_person_def find_by_phone_def
      normalize_phone_def is_digit_def)

lemma example_llm: "llm (example_env rows outcome) m f t l = outcome"
  by (simp add: example_env_def)


section \<open>Resolution miss\<close>

text \<open>
  C7. When the cache gives the table and \<open>find_person\<close> finds nobody, the endpoint answers
  200 with the fixed guidance response: confidence \<open>0.3\<close>, no references, and one of two
  different texts according to whether a phone was supplied. The generation counter is
  unchanged, and the result is the same whatever the generation service would have
  answered: the service is not invoked.
\<close>

theorem not_found_is_terminal:
  assumes "get_people_data S (now E) (sheet_read E) st = (Inr people_data, st1)"
    and "find_person people_data (user_phone_of request) (user_name_of E request) = None"
  shows "\<exists>resp. chat_endpoint S E request st = (Http_200 resp, st1) \<and>
           generations st1 = generations st \<and>
           chat_endpoint S (E\<lparr>llm := g\<rparr>) request st = (Http_200 resp, st1) \<and>
           answer_text resp =
             (if str_truthy (user_phone_of request) then not_found_with_phone_text
              else not_found_without_phone_text) \<and>
           not_found_with_phone_text \<noteq> not_found_without_phone_text \<and>
           confidence resp = 3 / 10 \<and>
           references resp = []"
proof -
  have same: "user_name_of (E\<lparr>llm := g\<rparr>) request = user_name_of E request"
    by (simp add: user_name_of_def Let_def)
  have "chat_endpoint S (E\<lparr>llm := g\<rparr>) request st =
      (Http_200 (create_not_found_response S (user_phone_of request) (user_name_of E request)), st1)"
    using chat_endpoint_not_found[of S "E\<lparr>llm := g\<rparr>" st people_data st1 request] assms same
    by simp
  then show ?thesis
    using chat_endpoint_not_found[OF assms] get_people_data_generations[OF assms(1)]
      not_found_texts_differ
    by (simp add: create_not_found_response_def)
qed

text \<open>The phone \<open>0999\<close> matches no example record and no name is given.\<close>

theorem not_found_is_terminal_witness:
  "\<exists>resp.
     chat_endpoint example_settings (example_env example_rows Llm_Raises)
       (example_request (Some ''0999'') None) initial_state =
       (Http_200 resp, fetched_state example_people) \<and>
     generations (fetched_state example_people) = generations initial_state \<and>
     chat_endpoint example_settings
       ((example_env example_rows Llm_Raises)\<lparr>llm := \<lambda>m f t l. example_reply []\<rparr>)
       (example_request (Some ''0999'') None) initial_state =
       (Http_200 resp, fetched_state example_people) \<and>
     answer_text resp = not_found_with_phone_text \<and>
     not_found_with_phone_text \<noteq> not_found_without_phone_text \<and>
     confidence resp = 3 / 10 \<and>
     references resp = []"
proof -
  have ph: "str_truthy (user_phone_of (example_request (Some ''0999'') None))"
    by (simp add: str_truthy_def user_phone_of_def example_request_def)
  from not_found_is_terminal[OF example_fetch example_find_none, where g = "\<lambda>m f t l. example_reply []"]
  show ?thesis
    by (simp only: ph if_True)
qed


section \<open>Match tag\<close>




section \<open>References of the final response\<close>

text \<open>
  C1, as amended. For every run in which a person with a non-empty \<open>person_id\<close> was
  resolved, the references of the final response contain a reference with source
  \<open>"People"\<close> and that \<open>person_id\<close>, whatever the generation step returned. When the
  resolved \<open>person_id\<close> is the empty string, the final references are the single
  \<open>People\<close> reference with the empty id if generation succeeded with no references, the
  validated generated references with nothing added if it succeeded with references, and
  none if generation failed.
\<close>

theorem people_reference_present:
  assumes "get_people_data S (now E) (sheet_read E) st = (Inr people_data, st1)"
    and "find_person people_data (user_phone_of request) (user_name_of E request) = Some p"
    and "llm E (message request) (build_facts p) (get_or_empty (build_facts p) ''profile_text'')
           (choose_locale S (user_locale_of request) (build_facts p)) = outcome"
  shows "\<exists>resp st2. chat_endpoint S E request st = (Http_200 resp, st2) \<and>
           (person.person_id p \<noteq> [] \<longrightarrow>
              has_people_ref (person.person_id p) (references resp)) \<and>
           (person.person_id p = [] \<longrightarrow>
              references resp =
                (case outcome of
                   Llm_Json (JObj data) \<Rightarrow>
                     if validate_str (map_of data ''answer_text'') = None \<or>
                validate_str (map_of data ''intent'') = None \<or>
                validate_confidence (lax_float E) (map_of data ''confidence'') = None \<or>
                (opt_truthy (map_of data ''references'') \<and>
                 validate_references (map_of data ''references'') = None) \<or>
                (opt_truthy (map_of data ''meta'') \<and> validate_meta (map_of data ''meta'') = None)
                     then []
                     else if opt_truthy (map_of data ''references'')
                          then (case validate_references (map_of data ''references'') of
                                  Some refs \<Rightarrow> refs | None \<Rightarrow> [])
                          else [\<lparr> source = ''People'', person_id = Some [] \<rparr>]
                 | _ \<Rightarrow> []))"
proof -
  have empty: "references (ensure_people_ref (build_facts p) r) = references r"
    if "person.person_id p = []" for r
    using that by (simp add: references_ensure_people_ref)
  have fb: "references (fallback loc (map_of (build_facts p) ''person_id'')) = []"
    if "person.person_id p = []" for loc
    using that by (simp add: fallback_def facts_person_id str_truthy_def)
  have ge: "get_or_empty (build_facts p) ''person_id'' = person.person_id p"
    by (simp add: get_or_empty_def facts_person_id)
  show ?thesis
    using chat_endpoint_found[OF assms(1,2)] has_people_ref_ensure[of p]
    by (auto simp: assms(3) references_enrich_meta empty references_generate_response fb ge
        split: llm_outcome.splits json.splits)
qed

text \<open>
  For record \<open>p1\<close> the generation step returns one reference, to another source; for the
  record with the empty \<open>person_id\<close> it returns none.
\<close>

theorem people_reference_present_witness:
  "(\<exists>resp st2.
      chat_endpoint example_settings
        (example_env example_rows (example_reply [json_ref ''Profile'' ''x'']))
        (example_request (Some ''0555 123 45 67'') None) initial_state = (Http_200 resp, st2) \<and>
      has_people_ref ''p1'' (references resp)) \<and>
   (\<exists>resp st2.
      chat_endpoint example_settings (example_env rows_without_id (example_reply []))
        (example_request (Some ''0555 999 99 99'') None) initial_state = (Http_200 resp, st2) \<and>
      references resp = [\<lparr> source = ''People'', person_id = Some [] \<rparr>])"
proof -
  have a: "\<exists>resp st2.
      chat_endpoint example_settings
        (example_env example_rows (example_reply [json_ref ''Profile'' ''x'']))
        (example_request (Some ''0555 123 45 67'') None) initial_state = (Http_200 resp, st2) \<and>
      has_people_ref ''p1'' (references resp)"
    using people_reference_present[OF
        example_fetch[of "example_reply [json_ref ''Profile'' ''x'']"]
        example_find_p1[of "example_reply [json_ref ''Profile'' ''x'']"] refl]
    by (simp add: person_p1_def)
  have b: "\<exists>resp st2.
      chat_endpoint example_settings (example_env rows_without_id (example_reply []))
        (example_request (Some ''0555 999 99 99'') None) initial_state = (Http_200 resp, st2) \<and>
      references resp = [\<lparr> source = ''People'', person_id = Some [] \<rparr>]"
    using people_reference_present[OF
        example_fetch_without_id[of "example_reply []"]
        example_find_without_id[of "example_reply []"] refl]
    by (simp add: person_without_id_def example_llm example_reply_def validate_str_def
        validate_confidence_def opt_truthy_def)
  from a b show ?thesis by blast
qed

text \<open>
  C1 as stated fails for a resolved record whose \<open>person_id\<close> is the empty string: with a
  generated reference to another source the final references are that reference alone,
  and with a failed generation they are empty.
\<close>

theorem people_reference_counterexample:
  "map_option person.person_id
     (find_person (List.map_filter parse_row rows_without_id) (Some ''0555 999 99 99'') None) = Some [] \<and>
   map_option references
     (ok_response (fst (chat_endpoint example_settings
        (example_env rows_without_id (example_reply [json_ref ''Profile'' ''x'']))
        (example_request (Some ''0555 999 99 99'') None) initial_state))) =
   Some [\<lparr> source = ''Profile'', person_id = Some ''x'' \<rparr>] \<and>
   map_option references
     (ok_response (fst (chat_endpoint example_settings
        (example_env rows_without_id Llm_Raises)
        (example_request (Some ''0555 999 99 99'') None) initial_state))) =
   Some []"
  by code_simp

text \<open>
  C2, as amended. On the generation-success path (the reply is an object whose
  \<open>answer_text\<close>, \<open>intent\<close> and \<open>confidence\<close> validate, whose \<open>meta\<close> is absent, empty or
  an object, and whose \<open>references\<close> are absent, empty or a valid list) nothing is
  deduplicated. When the reply carries references, the final references are the
  validated generated references, in their order and with their repetitions, followed
  by one \<open>People\<close> reference for the resolved person exactly when the resolved
  \<open>person_id\<close> is non-empty and no such reference is among them. When the reply carries
  no references, the final references are the single \<open>People\<close> reference with the resolved
  \<open>person_id\<close>, which may be the empty string.
\<close>

theorem references_kept_as_generated:
  assumes "get_people_data S (now E) (sheet_read E) st = (Inr people_data, st1)"
    and "find_person people_data (user_phone_of request) (user_name_of E request) = Some p"
    and "llm E (message request) (build_facts p) (get_or_empty (build_facts p) ''profile_text'')
           (choose_locale S (user_locale_of request) (build_facts p)) = Llm_Json (JObj data)"
    and "validate_str (map_of data ''answer_text'') = Some a"
    and "validate_str (map_of data ''intent'') = Some i"
    and "validate_confidence (lax_float E) (map_of data ''confidence'') = Some c"
    and "meta_of_data data = Some m"
    and "opt_truthy (map_of data ''references'') \<longrightarrow>
           validate_references (map_of data ''references'') = Some refs"
  shows "\<exists>resp st2. chat_endpoint S E request st = (Http_200 resp, st2) \<and>
           answer_text resp = a \<and> intent resp = i \<and> confidence resp = c \<and>
           references resp =
             (if opt_truthy (map_of data ''references'')
              then refs @
                   (if person.person_id p \<noteq> [] \<and> \<not> has_people_ref (person.person_id p) refs
                    then [\<lparr> source = ''People'', person_id = Some (person.person_id p) \<rparr>]
                    else [])
              else [\<lparr> source = ''People'', person_id = Some (person.person_id p) \<rparr>])"
proof -
  have ge: "get_or_empty (build_facts p) ''person_id'' = person.person_id p"
    by (simp add: get_or_empty_def facts_person_id)
  have one: "has_people_ref (person.person_id p)
      [\<lparr> source = ''People'', person_id = Some (person.person_id p) \<rparr>]"
    by (simp add: has_people_ref_def)
  show ?thesis
    using chat_endpoint_found[OF assms(1,2)]
      generate_response_succeeds[OF assms(4-8), of "build_facts p"
        "choose_locale S (user_locale_of request) (build_facts p)"]
    by (simp add: assms(3) references_enrich_meta fields_enrich_meta fields_ensure_people_ref
        references_ensure_people_ref ge one)
qed

text \<open>
  A repeated generated reference stays repeated, and the \<open>People\<close> reference is appended;
  a reply without references, for the record with the empty \<open>person_id\<close>, gives the
  \<open>People\<close> reference with the empty id.
\<close>

theorem references_kept_as_generated_witness:
  "(\<exists>resp st2.
      chat_endpoint example_settings
        (example_env example_rows (example_reply [json_ref ''Profile'' ''x'', json_ref ''Profile'' ''x'']))
        (example_request (Some ''0555 123 45 67'') None) initial_state = (Http_200 resp, st2) \<and>
      answer_text resp = ''Merhaba'' \<and> intent resp = ''genel'' \<and> confidence resp = 9 / 10 \<and>
      references resp =
        [\<lparr> source = ''Profile'', person_id = Some ''x'' \<rparr>,
         \<lparr> source = ''Profile'', person_id = Some ''x'' \<rparr>,
         \<lparr> source = ''People'', person_id = Some ''p1'' \<rparr>]) \<and>
   (\<exists>resp st2.
      chat_endpoint example_settings (example_env rows_without_id (example_reply []))
        (example_request (Some ''0555 999 99 99'') None) initial_state = (Http_200 resp, st2) \<and>
      answer_text resp = ''Merhaba'' \<and> intent resp = ''genel'' \<and> confidence resp = 9 / 10 \<and>
      references resp = [\<lparr> source = ''People'', person_id = Some [] \<rparr>])"
proof -
  let ?items = "[json_ref ''Profile'' ''x'', json_ref ''Profile'' ''x'']"
  let ?data = "\<lambda>items. [(''answer_text'', JStr ''Merhaba''), (''intent'', JStr ''genel''),
                (''confidence'', JNum (9 / 10)), (''references'', JArr items)]"
  have h3: "llm (example_env rows (example_reply items)) m f t l = Llm_Json (JObj (?data items))"
    for rows items m f t l
    by (simp add: example_llm example_reply_def)
  have h4: "validate_str (map_of (?data items) ''answer_text'') = Some ''Merhaba''" for items
    by (simp add: validate_str_def)
  have h5: "validate_str (map_of (?data items) ''intent'') = Some ''genel''" for items
    by (simp add: validate_str_def)
  have h6: "validate_confidence (lax_float (example_env rows outcome))
      (map_of (?data items) ''confidence'') = Some (9 / 10)" for rows outcome items
    by (simp add: validate_confidence_def)
  have h7: "meta_of_data (?data items) = Some []" for items
    by (simp add: meta_of_data_def opt_truthy_def)
  have h8a: "opt_truthy (map_of (?data ?items) ''references'') \<longrightarrow>
      validate_references (map_of (?data ?items) ''references'') =
        Some [\<lparr> source = ''Profile'', person_id = Some ''x'' \<rparr>,
              \<lparr> source = ''Profile'', person_id = Some ''x'' \<rparr>]"
    by (simp add: validate_references_def validate_reference_def json_ref_def)
  have h8b: "opt_truthy (map_of (?data []) ''references'') \<longrightarrow>
      validate_references (map_of (?data []) ''references'') = Some []"
    by (simp add: opt_truthy_def)
  have a: "\<exists>resp st2.
      chat_endpoint example_settings
        (example_env example_rows (example_reply ?items))
        (example_request (Some ''0555 123 45 67'') None) initial_state = (Http_200 resp, st2) \<and>
      answer_text resp = ''Merhaba'' \<and> intent resp = ''genel'' \<and> confidence resp = 9 / 10 \<and>
      references resp =
        [\<lparr> source = ''Profile'', person_id = Some ''x'' \<rparr>,
         \<lparr> source = ''Profile'', person_id = Some ''x'' \<rparr>,
         \<lparr> source = ''People'', person_id = Some ''p1'' \<rparr>]"
    using references_kept_as_generated[OF example_fetch example_find_p1 h3 h4 h5 h6 h7 h8a]
    by (simp add: person_p1_def has_people_ref_def opt_truthy_def)
  have b: "\<exists>resp st2.
      chat_endpoint example_settings (example_env rows_without_id (example_reply []))
        (example_request (Some ''0555 999 99 99'') None) initial_state = (Http_200 resp, st2) \<and>
      answer_text resp = ''Merhaba'' \<and> intent resp = ''genel'' \<and> confidence resp = 9 / 10 \<and>
      references resp = [\<lparr> source = ''People'', person_id = Some [] \<rparr>]"
    using references_kept_as_generated[OF example_fetch_without_id example_find_without_id
        h3 h4 h5 h6 h7 h8b]
    by (simp add: person_without_id_def opt_truthy_def)
  from a b show ?thesis by blast
qed

text \<open>
  C2 as stated fails: a generated answer that carries the same reference twice gives a
  final response that carries it twice.
\<close>

theorem references_deduplicated_counterexample:
  "map_option references
     (ok_response (fst (chat_endpoint example_settings
        (example_env example_rows (example_reply [json_ref ''People'' ''p1'', json_ref ''People'' ''p1'']))
        (example_request (Some ''0555 123 45 67'') None) initial_state))) =
   Some [\<lparr> source = ''People'', person_id = Some ''p1'' \<rparr>,
         \<lparr> source = ''People'', person_id = Some ''p1'' \<rparr>]"
  by code_simp


section \<open>Fallback answer\<close>





section \<open>Table cache\<close>

lemma cache_lookup_initial: "cache_lookup t initial_state = None"
  by (simp add: cache_lookup_def initial_state_def)

text \<open>
  C4, as amended. On a miss (a first call, or an entry whose expiry has passed) \<open>get()\<close>
  makes exactly one fetch. If the fetch fails the error is returned and the cache is
  left as it was. If the fetch returns no rows, the empty list is returned and nothing
  is stored. If it returns rows, the parsed rows are returned and stored with the expiry
  \<open>now + ttl\<close>; then every \<open>get()\<close> before the expiry makes no fetch and returns the stored
  rows, and a \<open>get()\<close> at or after the expiry makes exactly one more fetch.
\<close>

theorem cache_fetches:
  assumes "cache_lookup t0 st = None"
  shows "get_people_data S t0 Fetch_Raises st = (Inl Sheets_Error, st\<lparr>fetches := fetches st + 1\<rparr>) \<and>
         get_people_data S t0 (Fetch_Values []) st = (Inr [], st\<lparr>fetches := fetches st + 1\<rparr>) \<and>
         (vals \<noteq> [] \<longrightarrow>
            (\<exists>st1. get_people_data S t0 (Fetch_Values vals) st = (Inr (List.map_filter parse_row vals), st1) \<and>
               fetches st1 = fetches st + 1 \<and>
               cache st1 = Some (List.map_filter parse_row vals, t0 + of_int (cache_ttl_ms S) / 1000) \<and>
               (\<forall>t1 outcome. t1 < t0 + of_int (cache_ttl_ms S) / 1000 \<longrightarrow>
                  get_people_data S t1 outcome st1 = (Inr (List.map_filter parse_row vals), st1)) \<and>
               (\<forall>t1 outcome. t0 + of_int (cache_ttl_ms S) / 1000 \<le> t1 \<longrightarrow>
                  fetches (snd (get_people_data S t1 outcome st1)) = fetches st1 + 1)))"
proof (intro conjI impI)
  show "get_people_data S t0 Fetch_Raises st = (Inl Sheets_Error, st\<lparr>fetches := fetches st + 1\<rparr>)"
    using assms by (simp add: get_people_data_def)
  show "get_people_data S t0 (Fetch_Values []) st = (Inr [], st\<lparr>fetches := fetches st + 1\<rparr>)"
    using assms by (simp add: get_people_data_def)
next
  assume ne: "vals \<noteq> []"
  let ?people = "List.map_filter parse_row vals"
  let ?exp = "t0 + of_int (cache_ttl_ms S) / 1000"
  let ?st1 = "st\<lparr>fetches := fetches st + 1, cache := Some (?people, ?exp)\<rparr>"
  have g: "get_people_data S t0 (Fetch_Values vals) st = (Inr ?people, ?st1)"
    using assms ne by (simp add: get_people_data_def Let_def)
  have hit: "get_people_data S t1 outcome ?st1 = (Inr ?people, ?st1)" if "t1 < ?exp" for t1 outcome
    using that by (simp add: get_people_data_def cache_lookup_def)
  have miss: "fetches (snd (get_people_data S t1 outcome ?st1)) = fetches ?st1 + 1"
    if "?exp \<le> t1" for t1 outcome
    using that by (cases outcome) (simp_all add: get_people_data_def cache_lookup_def Let_def)
  show "\<exists>st1. get_people_data S t0 (Fetch_Values vals) st = (Inr ?people, st1) \<and>
               fetches st1 = fetches st + 1 \<and>
               cache st1 = Some (?people, ?exp) \<and>
               (\<forall>t1 outcome. t1 < ?exp \<longrightarrow>
                  get_people_data S t1 outcome st1 = (Inr ?people, st1)) \<and>
               (\<forall>t1 outcome. ?exp \<le> t1 \<longrightarrow>
                  fetches (snd (get_people_data S t1 outcome st1)) = fetches st1 + 1)"
    using g hit miss by (intro exI[of _ ?st1]) simp
qed

text \<open>
  A fresh client, a TTL of 60 seconds: the first call fetches, a call at 59 seconds is
  served from the cache (the spreadsheet would have failed), a call at 60 seconds fetches
  again.
\<close>

theorem cache_fetches_witness:
  "get_people_data example_settings 0 Fetch_Raises initial_state =
     (Inl Sheets_Error, initial_state\<lparr>fetches := 1\<rparr>) \<and>
   get_people_data example_settings 0 (Fetch_Values example_rows) initial_state =
     (Inr example_people, fetched_state example_people) \<and>
   get_people_data example_settings 59 Fetch_Raises (fetched_state example_people) =
     (Inr example_people, fetched_state example_people) \<and>
   fetches (snd (get_people_data example_settings 60 (Fetch_Values example_rows)
                   (fetched_state example_people))) = 2"
proof -
  note t = cache_fetches[OF cache_lookup_initial[of 0], of example_settings example_rows]
  have ne: "example_rows \<noteq> []" by (simp add: example_rows_def)
  have ttl: "(0::rat) + of_int (cache_ttl_ms example_settings) / 1000 = 60"
    by (simp add: example_settings_def)
  have a: "get_people_data example_settings 0 Fetch_Raises initial_state =
     (Inl Sheets_Error, initial_state\<lparr>fetches := 1\<rparr>)"
    using t by (simp add: initial_state_def)
  from t ne obtain st1 where
    g: "get_people_data example_settings 0 (Fetch_Values example_rows) initial_state =
          (Inr (List.map_filter parse_row example_rows), st1)"
    and f: "fetches st1 = fetches initial_state + 1"
    and hit: "\<forall>t1 outcome. t1 < 0 + of_int (cache_ttl_ms example_settings) / 1000 \<longrightarrow>
                  get_people_data example_settings t1 outcome st1 =
                    (Inr (List.map_filter parse_row example_rows), st1)"
    and miss: "\<forall>t1 outcome. 0 + of_int (cache_ttl_ms example_settings) / 1000 \<le> t1 \<longrightarrow>
                  fetches (snd (get_people_data example_settings t1 outcome st1)) = fetches st1 + 1"
    by blast
  have e: "get_people_data example_settings 0 (Fetch_Values example_rows) initial_state =
     (Inr example_people, fetched_state example_people)"
    using example_fetch[of Llm_Raises] by (simp add: example_env_def)
  with g have st1: "st1 = fetched_state example_people" by simp
  have b: "get_people_data example_settings 59 Fetch_Raises (fetched_state example_people) =
     (Inr example_people, fetched_state example_people)"
    using hit[rule_format, of 59 Fetch_Raises] unfolding ttl st1
    by (simp add: example_people_def)
  have c: "fetches (snd (get_people_data example_settings 60 (Fetch_Values example_rows)
                   (fetched_state example_people))) = 2"
    using miss[rule_format, of 60 "Fetch_Values example_rows"] f unfolding ttl st1
    by (simp add: initial_state_def)
  from a e b c show ?thesis by blast
qed

text \<open>
  C4 as stated fails for a fetch that returns no rows: nothing is stored, and a second
  \<open>get()\<close> one second later, well within the TTL, fetches again.
\<close>

theorem empty_fetch_counterexample:
  "get_people_data example_settings 0 (Fetch_Values []) initial_state =
     (Inr [], initial_state\<lparr>fetches := 1\<rparr>) \<and>
   cache (initial_state\<lparr>fetches := 1\<rparr>) = None \<and>
   get_people_data example_settings 1 (Fetch_Values []) (initial_state\<lparr>fetches := 1\<rparr>) =
     (Inr [], initial_state\<lparr>fetches := 2\<rparr>)"
  by (simp add: get_people_data_def cache_lookup_def initial_state_def)


section \<open>Name matching\<close>

text \<open>
  C5. The source admits a candidate on the ratio of the trimmed, case-folded strings
  (\<open>fuzzy_match\<close>) and ranks the admitted candidates on the ratio of the case-folded
  strings, not trimmed. For the name \<open>"  Ali Veli  "\<close> and the stored names \<open>"Ali Veli"\<close>
  (\<open>p1\<close>) and \<open>"Ali Veli B"\<close> (\<open>p2\<close>) both candidates are admitted, with trimmed ratios
  \<open>1\<close> and \<open>8/9\<close>; the ranking ratios are \<open>4/5\<close> and \<open>9/11\<close>, so the source returns \<open>p2\<close>,
  where the record achieving the maximum is \<open>p1\<close>.
\<close>

theorem name_match_ranks_untrimmed:
  "map_option person.person_id
     (find_by_name (List.map_filter parse_row namesake_rows) ''  Ali Veli  '') = Some ''p2'' \<and>
   map_option person.person_id
     (spec_find_by_name (List.map_filter parse_row namesake_rows) ''  Ali Veli  '') = Some ''p1'' \<and>
   ratio (strip (lower ''  Ali Veli  '')) (strip (lower ''Ali Veli'')) = 1 \<and>
   ratio (strip (lower ''  Ali Veli  '')) (strip (lower ''Ali Veli B'')) = 8 / 9 \<and>
   ratio (lower ''  Ali Veli  '') (lower ''Ali Veli'') = 4 / 5 \<and>
   ratio (lower ''  Ali Veli  '') (lower ''Ali Veli B'') = 9 / 11"
  by code_simp

text \<open>
  Where trimming changes nothing (the case-folded name and stored names have no leading
  or trailing whitespace) the source and the specification agree, for every record list:
  the difference above is the only one.
\<close>

lemma check_name_trimmed:
  assumes "nm \<noteq> []" and "strip (lower nm) = lower nm"
    and "strip (lower stored) = lower stored"
  shows "check_name nm p stored best =
           (if spec_ratio nm stored \<ge> 85 / 100 \<and> spec_ratio nm stored > snd best
            then (Some p, spec_ratio nm stored) else best)"
  using assms by (cases "stored = []") (simp_all add: check_name_def fuzzy_match_def spec_ratio_def Let_def)

lemma two_checks:
  fixes c1 c2 :: rat
  shows "(let b1 = (if c1 \<ge> 85 / 100 \<and> c1 > snd best then (Some p, c1) else best)
          in if c2 \<ge> 85 / 100 \<and> c2 > snd b1 then (Some p, c2) else b1) =
         (if max c1 c2 \<ge> 85 / 100 \<and> max c1 c2 > snd best then (Some p, max c1 c2) else best)"
  by (auto simp: Let_def max_def)

lemma loop_step_trimmed:
  assumes "nm \<noteq> []" and "strip (lower nm) = lower nm"
    and "strip (lower (full_name p)) = lower (full_name p)"
    and "strip (lower (preferred_name p)) = lower (preferred_name p)"
  shows "check_name nm p (preferred_name p) (check_name nm p (full_name p) best) =
           (if spec_score nm p \<ge> 85 / 100 \<and> spec_score nm p > snd best
            then (Some p, spec_score nm p) else best)"
  using two_checks[of "spec_ratio nm (full_name p)" best p "spec_ratio nm (preferred_name p)"]
  by (simp add: check_name_trimmed[OF assms(1,2)] assms(3,4) spec_score_def Let_def)

lemma loop_is_spec_best:
  assumes "nm \<noteq> []" and "strip (lower nm) = lower nm"
    and "\<forall>p \<in> set ps. strip (lower (full_name p)) = lower (full_name p) \<and>
                       strip (lower (preferred_name p)) = lower (preferred_name p)"
  shows "find_by_name_loop nm ps best =
           (case spec_best nm ps of
              None \<Rightarrow> best
            | Some (q, s) \<Rightarrow> if s \<ge> 85 / 100 \<and> s > snd best then (Some q, s) else best)"
  using assms(3)
proof (induction ps arbitrary: best)
  case Nil
  then show ?case by simp
next
  case (Cons p ps)
  have step: "check_name nm p (preferred_name p) (check_name nm p (full_name p) best) =
           (if spec_score nm p \<ge> 85 / 100 \<and> spec_score nm p > snd best
            then (Some p, spec_score nm p) else best)"
    using loop_step_trimmed[OF assms(1,2)] Cons.prems by simp
  have rest: "\<forall>p \<in> set ps. strip (lower (full_name p)) = lower (full_name p) \<and>
                       strip (lower (preferred_name p)) = lower (preferred_name p)"
    using Cons.prems by simp
  show ?case
    unfolding find_by_name_loop.simps step Cons.IH[OF rest]
    by (auto split: option.splits)
qed

lemma spec_best_empty_name:
  "spec_best [] ps = Some (q, s) \<Longrightarrow> s = 0"
  by (induction ps arbitrary: q s) (auto simp: spec_score_def spec_ratio_def split: option.splits if_splits)

lemma find_by_name_is_spec:
  assumes "strip (lower nm) = lower nm"
    and "\<forall>p \<in> set people_data. strip (lower (full_name p)) = lower (full_name p) \<and>
                       strip (lower (preferred_name p)) = lower (preferred_name p)"
  shows "find_by_name people_data nm = spec_find_by_name people_data nm"
proof (cases "nm = []")
  case True
  then show ?thesis
    by (auto simp: find_by_name_def spec_find_by_name_def split: option.splits
        dest: spec_best_empty_name)
next
  case False
  show ?thesis
    using False loop_is_spec_best[OF False assms, of "(None, 0)"]
    by (auto simp: find_by_name_def spec_find_by_name_def split: option.splits)
qed

end
